theory Spec2Isabelle
  imports Main
begin

section \<open>The generative-language service wrapper (services/geminiService.ts)\<close>

text \<open>
  The module keeps two variables (\<open>currentChatSession\<close>, \<open>currentKeyIndexGroupA\<close>),
  reads its credentials once from the build environment, and talks to an external SDK.
  The embedding makes each of these explicit:
  \<^item> strings are byte lists (UTF-8), \<open>string | undefined\<close> is \<open>string option\<close>;
  \<^item> the module variables are the record \<open>module_state\<close>, passed in and returned;
  \<^item> the SDK is an oracle \<open>sdk\<close>: what a call answers at a given moment is a
    parameter, so every theorem holds for every behaviour of the remote service;
  \<^item> everything observable from outside (requests, console output) is appended to the
    \<open>trace\<close> of the \<open>world\<close>, whose \<open>now\<close> counts the SDK calls made so far;
  \<^item> a thrown exception is the \<open>Inl\<close> branch of a sum, a \<open>catch\<close> is a case on it.
\<close>

subsection \<open>JavaScript values\<close>

definition truthy :: "string option \<Rightarrow> bool" where
  "truthy v = (case v of None \<Rightarrow> False | Some s \<Rightarrow> s \<noteq> [])"

text \<open>\<open>a || b\<close> on \<open>string | undefined\<close>.\<close>

definition js_or :: "string option \<Rightarrow> string option \<Rightarrow> string option" where
  "js_or a b = (if truthy a then a else b)"

text \<open>\<open>a || "literal"\<close>, a string.\<close>

definition js_or_default :: "string option \<Rightarrow> string \<Rightarrow> string" where
  "js_or_default a d = (case a of None \<Rightarrow> d | Some s \<Rightarrow> if s \<noteq> [] then s else d)"

text \<open>\<open>xs[i]\<close>: \<open>undefined\<close> out of range.\<close>

definition js_index :: "'a list \<Rightarrow> nat \<Rightarrow> 'a option" where
  "js_index xs i = (if i < length xs then Some (xs ! i) else None)"

text \<open>\<open>[...].filter(Boolean) as string[]\<close>.\<close>

fun filter_Boolean :: "string option list \<Rightarrow> string list" where
  "filter_Boolean [] = []"
| "filter_Boolean (None # vs) = filter_Boolean vs"
| "filter_Boolean (Some s # vs) = (if s \<noteq> [] then s # filter_Boolean vs else filter_Boolean vs)"

text \<open>Decimal digits of a number, for the template strings of the console messages.\<close>

function string_of_nat :: "nat \<Rightarrow> string" where
  "string_of_nat n =
     (if n < 10 then [char_of (48 + n)]
      else string_of_nat (n div 10) @ [char_of (48 + n mod 10)])"
  by pat_completeness auto
termination
  by (relation "measure id") auto

subsection \<open>Environment and credentials\<close>

text \<open>
  \<open>import.meta.env\<close> and \<open>process.env\<close>; each may be absent altogether.
\<close>

record environ =
  import_meta_env :: "(string \<rightharpoonup> string) option"
  process_env :: "(string \<rightharpoonup> string) option"

definition env_lookup :: "(string \<rightharpoonup> string) option \<Rightarrow> string \<Rightarrow> string option" where
  "env_lookup vars key = (case vars of None \<Rightarrow> None | Some m \<Rightarrow> m key)"

definition getEnv :: "environ \<Rightarrow> string \<Rightarrow> string option" where
  "getEnv e key =
     (if truthy (env_lookup (import_meta_env e) key) then env_lookup (import_meta_env e) key
      else if truthy (env_lookup (process_env e) key) then env_lookup (process_env e) key
      else None)"

definition PRIMARY_KEY :: "environ \<Rightarrow> string option" where
  "PRIMARY_KEY e =
     js_or (js_or (getEnv e ''API_KEY'') (getEnv e ''VITE_API_KEY'')) (getEnv e ''REACT_APP_API_KEY'')"

definition GROUP_A_KEYS :: "environ \<Rightarrow> string list" where
  "GROUP_A_KEYS e =
     filter_Boolean
       [js_or (getEnv e ''API_KEY_A1'') (PRIMARY_KEY e),
        getEnv e ''API_KEY_A2'',
        getEnv e ''API_KEY_A3'']"

definition GROUP_B_KEYS :: "environ \<Rightarrow> string list" where
  "GROUP_B_KEYS e = filter_Boolean [js_or (getEnv e ''API_KEY_B1'') (PRIMARY_KEY e)]"

definition TEXT_MODEL :: string where
  "TEXT_MODEL = ''gemini-2.0-flash''"

subsection \<open>The SDK's data\<close>

record inlineData =
  mimeType :: string
  data :: string

datatype part = TextPart string | InlineDataPart inlineData

record content =
  content_role :: string
  content_parts :: "part list"

text \<open>
  A \<open>Chat\<close> object, by what the module gives it: the key of the client it was
  created from, the model, and the transcript. The \<open>config\<close> literal of
  \<open>createSession\<close> is the same constant in every call and is never read back.
\<close>

record chat =
  apiKey :: "string option"
  model :: string
  history :: "content list"

record response =
  response_text :: "string option"

datatype jserror = JsError (toString: string)

datatype event =
    Call_sendMessage chat "part list"
  | Call_getHistory chat
  | Call_generateContent string string string
  | console_warn string jserror
  | console_error string
  | console_log string

record world =
  now :: nat
  trace :: "event list"

definition emit :: "event \<Rightarrow> world \<Rightarrow> world" where
  "emit ev w = w\<lparr>trace := trace w @ [ev]\<rparr>"

text \<open>
  The oracle. \<open>sendMessage_outcome k t c ps\<close> is what \<open>c.sendMessage\<close> does when
  called at moment \<open>t\<close>: it throws or answers, and leaves the chat with a transcript.
  \<open>getHistory_outcome\<close> says whether \<open>c.getHistory()\<close> throws;
  \<open>generateContent_outcome k t key model prompt\<close> is the one-shot request.
\<close>

record sdk =
  sendMessage_outcome :: "nat \<Rightarrow> chat \<Rightarrow> part list \<Rightarrow> (jserror + response) \<times> content list"
  getHistory_outcome :: "nat \<Rightarrow> chat \<Rightarrow> jserror option"
  generateContent_outcome :: "nat \<Rightarrow> string \<Rightarrow> string \<Rightarrow> string \<Rightarrow> jserror + response"

definition sendMessage ::
  "sdk \<Rightarrow> chat \<Rightarrow> part list \<Rightarrow> world \<Rightarrow> (jserror + response) \<times> chat \<times> world" where
  "sendMessage k c ps w =
     (case sendMessage_outcome k (now w) c ps of
        (r, h) \<Rightarrow> (r, c\<lparr>history := h\<rparr>, emit (Call_sendMessage c ps) (w\<lparr>now := Suc (now w)\<rparr>)))"

definition getHistory :: "sdk \<Rightarrow> chat \<Rightarrow> world \<Rightarrow> (jserror + content list) \<times> world" where
  "getHistory k c w =
     ((case getHistory_outcome k (now w) c of Some e \<Rightarrow> Inl e | None \<Rightarrow> Inr (history c)),
      emit (Call_getHistory c) (w\<lparr>now := Suc (now w)\<rparr>))"

definition generateContent ::
  "sdk \<Rightarrow> string \<Rightarrow> string \<Rightarrow> string \<Rightarrow> world \<Rightarrow> (jserror + response) \<times> world" where
  "generateContent k key m prompt w =
     (generateContent_outcome k (now w) key m prompt,
      emit (Call_generateContent key m prompt) (w\<lparr>now := Suc (now w)\<rparr>))"

subsection \<open>Module state\<close>

record module_state =
  currentChatSession :: "chat option"
  currentKeyIndexGroupA :: nat

definition initial_state :: module_state where
  "initial_state = \<lparr>currentChatSession = None, currentKeyIndexGroupA = 0\<rparr>"

subsection \<open>Fallback logic\<close>

definition createSession :: "string option \<Rightarrow> content list option \<Rightarrow> chat" where
  "createSession key hist =
     \<lparr>apiKey = key, model = TEXT_MODEL,
      history = (case hist of None \<Rightarrow> [] | Some h \<Rightarrow> h)\<rparr>"

definition getOrInitSession :: "environ \<Rightarrow> module_state \<Rightarrow> chat \<times> module_state" where
  "getOrInitSession e st =
     (case currentChatSession st of
        None \<Rightarrow>
          (let st1 = st\<lparr>currentKeyIndexGroupA := 0\<rparr>;
               c = createSession (Some (js_or_default (js_index (GROUP_A_KEYS e) 0) ''MISSING_KEY'')) None
           in (c, st1\<lparr>currentChatSession := Some c\<rparr>))
      | Some c \<Rightarrow> (c, st))"

subsection \<open>Messages\<close>

definition MSG_CONFIG :: string where
  "MSG_CONFIG =
     ''ERRO DE CONFIGURA'' @ [CHR 0xC3, CHR 0x87, CHR 0xC3, CHR 0x83] @ ''O: API Key n'' @
     [CHR 0xC3, CHR 0xA3] @ ''o encontrada. Configure VITE_API_KEY ou API_KEY no Vercel.''"

definition MSG_NO_RESPONSE :: string where
  "MSG_NO_RESPONSE = ''Erro: Sem resposta do Mentor.''"

definition MSG_CRITICAL :: string where
  "MSG_CRITICAL =
     ''ERRO CR'' @ [CHR 0xC3, CHR 0x8D] @ ''TICO: Sistema indispon'' @ [CHR 0xC3, CHR 0xAD] @
     ''vel temporariamente. Tente novamente em instantes.''"

definition MSG_UNKNOWN :: string where
  "MSG_UNKNOWN =
     ''Erro desconhecido de execu'' @ [CHR 0xC3, CHR 0xA7, CHR 0xC3, CHR 0xA3] @ ''o.''"

definition key_failed_msg :: "nat \<Rightarrow> string" where
  "key_failed_msg i = ''[Mentor AI] Key '' @ string_of_nat (i + 1) @ '' failed.''"

definition switching_msg :: "nat \<Rightarrow> string" where
  "switching_msg i = ''[Mentor AI] Switching to Key '' @ string_of_nat (i + 1) @ ''...''"

subsection \<open>sendMessageToGemini\<close>

text \<open>
  The inner \<open>try { previousHistory = await session.getHistory() } catch\<close>:
  the transcript, or the empty list and a warning.
\<close>

definition recover_history :: "sdk \<Rightarrow> chat \<Rightarrow> world \<Rightarrow> content list \<times> world" where
  "recover_history k session w =
     (case getHistory k session w of
        (Inr h, w1) \<Rightarrow> (h, w1)
      | (Inl hError, w1) \<Rightarrow>
          ([], emit (console_warn ''Could not retrieve history from failed session.'' hError) w1))"

text \<open>The fallback procedure of the \<open>catch\<close> block (steps 1 to 3).\<close>

definition fallback_procedure ::
  "environ \<Rightarrow> sdk \<Rightarrow> module_state \<Rightarrow> world \<Rightarrow> module_state \<times> world" where
  "fallback_procedure e k st w =
     (case getOrInitSession e st of
        (session, st1) \<Rightarrow>
          (case recover_history k session w of
             (previousHistory, w1) \<Rightarrow>
               (let i = (currentKeyIndexGroupA st1 + 1) mod length (GROUP_A_KEYS e);
                    st2 = st1\<lparr>currentKeyIndexGroupA := i\<rparr>;
                    nextKey = js_index (GROUP_A_KEYS e) i;
                    w2 = emit (console_log (switching_msg i)) w1
                in (st2\<lparr>currentChatSession := Some (createSession nextKey (Some previousHistory))\<rparr>,
                    w2))))"

text \<open>
  One pass of the \<open>for\<close> loop. \<open>Some r\<close>: the function returns \<open>r\<close>;
  \<open>None\<close>: the loop goes on with the next \<open>attempt\<close>. The chat object
  in the slot is the one \<open>sendMessage\<close> was called on, so the slot sees what the
  call did to its transcript.
\<close>

definition attempt_body ::
  "environ \<Rightarrow> sdk \<Rightarrow> part list \<Rightarrow> nat \<Rightarrow> module_state \<Rightarrow> world
     \<Rightarrow> string option \<times> module_state \<times> world" where
  "attempt_body e k ps attempt st w =
     (case getOrInitSession e st of
        (session, st1) \<Rightarrow>
          (case sendMessage k session ps w of
             (Inr resp, session', w1) \<Rightarrow>
               (Some (js_or_default (response_text resp) MSG_NO_RESPONSE),
                st1\<lparr>currentChatSession := Some session'\<rparr>, w1)
           | (Inl err, session', w1) \<Rightarrow>
               (let st2 = st1\<lparr>currentChatSession := Some session'\<rparr>;
                    w2 = emit (console_warn (key_failed_msg (currentKeyIndexGroupA st2)) err) w1
                in if attempt = length (GROUP_A_KEYS e) - 1
                   then (Some MSG_CRITICAL, st2,
                         emit (console_error ''[Mentor AI] All keys in Group A failed.'') w2)
                   else (case fallback_procedure e k st2 w2 of
                           (st3, w3) \<Rightarrow> (None, st3, w3)))))"

function sendMessageToGemini_loop ::
  "environ \<Rightarrow> sdk \<Rightarrow> part list \<Rightarrow> nat \<Rightarrow> module_state \<Rightarrow> world
     \<Rightarrow> string \<times> module_state \<times> world" where
  "sendMessageToGemini_loop e k ps attempt st w =
     (if attempt < length (GROUP_A_KEYS e)
      then (case attempt_body e k ps attempt st w of
              (Some r, st1, w1) \<Rightarrow> (r, st1, w1)
            | (None, st1, w1) \<Rightarrow> sendMessageToGemini_loop e k ps (Suc attempt) st1 w1)
      else (MSG_UNKNOWN, st, w))"
  by pat_completeness auto
termination
  by (relation "measure (\<lambda>(e, k, ps, attempt, st, w). length (GROUP_A_KEYS e) - attempt)") auto

text \<open>
  \<open>parts = [{ text: message }]\<close>, with the image put in front when there is one.
\<close>

definition user_parts :: "string \<Rightarrow> inlineData option \<Rightarrow> part list" where
  "user_parts message imagePart =
     (case imagePart of
        None \<Rightarrow> [TextPart message]
      | Some i \<Rightarrow> InlineDataPart i # [TextPart message])"

definition sendMessageToGemini ::
  "environ \<Rightarrow> sdk \<Rightarrow> string \<Rightarrow> inlineData option \<Rightarrow> module_state \<Rightarrow> world
     \<Rightarrow> string \<times> module_state \<times> world" where
  "sendMessageToGemini e k message imagePart st w =
     (if length (GROUP_A_KEYS e) = 0 then (MSG_CONFIG, st, w)
      else sendMessageToGemini_loop e k (user_parts message imagePart) 0 st w)"

subsection \<open>generateMindMapText and generateMindMapImage\<close>

definition PROMPT_BEFORE_TOPIC :: string where
  "PROMPT_BEFORE_TOPIC =
     [CHR 0x0A] @ ''    VOC'' @ [CHR 0xC3, CHR 0x8A] @ '' '' @ [CHR 0xC3, CHR 0x89] @
     '' UM ARQUITETO DE INFORMA'' @ [CHR 0xC3, CHR 0x87, CHR 0xC3, CHR 0x83] @ ''O DO C'' @
     [CHR 0xC3, CHR 0x93] @ ''DIGO DA EVOLU'' @ [CHR 0xC3, CHR 0x87, CHR 0xC3, CHR 0x83] @
     ''O.'' @ [CHR 0x0A] @ ''    TAREFA: Crie um MAPA MENTAL ESTRUTURAL em texto sobre: '' @
     [CHR 0x22]"

definition PROMPT_AFTER_TOPIC :: string where
  "PROMPT_AFTER_TOPIC =
     [CHR 0x22] @ ''.'' @ [CHR 0x0A] @ ''    '' @ [CHR 0x0A] @ ''    REGRAS VISUAIS:'' @
     [CHR 0x0A] @ ''    - Use caracteres ASCII/Unicode para conectar ('' @
     [CHR 0xE2, CHR 0x94, CHR 0x9C] @ '', '' @ [CHR 0xE2, CHR 0x94, CHR 0x94] @ '', '' @
     [CHR 0xE2, CHR 0x94, CHR 0x82] @ '', '' @ [CHR 0xE2, CHR 0x94, CHR 0x80] @ '').'' @
     [CHR 0x0A] @ ''    - N'' @ [CHR 0xC3, CHR 0xA3] @ ''o use Markdown de c'' @
     [CHR 0xC3, CHR 0xB3] @ ''digo ('' @ [CHR 0x60, CHR 0x60, CHR 0x60] @ '').'' @
     [CHR 0x0A] @ ''    - O layout deve ser vertical e hier'' @ [CHR 0xC3, CHR 0xA1] @
     ''rquico.'' @ [CHR 0x0A] @ ''    - Estilo limpo, direto e focado em A'' @
     [CHR 0xC3, CHR 0x87, CHR 0xC3, CHR 0x83] @ ''O.'' @ [CHR 0x0A] @ ''    '' @ [CHR 0x0A] @
     ''    EXEMPLO DE SA'' @ [CHR 0xC3, CHR 0x8D] @ ''DA:'' @ [CHR 0x0A] @ ''    '' @
     [CHR 0x0A] @ ''    OBJETIVO CENTRAL'' @ [CHR 0x0A] @ ''    '' @
     [CHR 0xE2, CHR 0x94, CHR 0x82, CHR 0x0A] @ ''    '' @
     [CHR 0xE2, CHR 0x94, CHR 0x9C, CHR 0xE2, CHR 0x94, CHR 0x80, CHR 0xE2, CHR 0x94, CHR 0x80] @
     '' FASE 1: FUNDA'' @ [CHR 0xC3, CHR 0x87, CHR 0xC3, CHR 0x83] @ ''O'' @ [CHR 0x0A] @
     ''    '' @ [CHR 0xE2, CHR 0x94, CHR 0x82] @ ''   '' @
     [CHR 0xE2, CHR 0x94, CHR 0x9C, CHR 0xE2, CHR 0x94, CHR 0x80, CHR 0xE2, CHR 0x94, CHR 0x80] @
     '' A'' @ [CHR 0xC3, CHR 0xA7, CHR 0xC3, CHR 0xA3] @ ''o Imediata'' @ [CHR 0x0A] @
     ''    '' @ [CHR 0xE2, CHR 0x94, CHR 0x82] @ ''   '' @
     [CHR 0xE2, CHR 0x94, CHR 0x94, CHR 0xE2, CHR 0x94, CHR 0x80, CHR 0xE2, CHR 0x94, CHR 0x80] @
     '' Bloqueio Mental'' @ [CHR 0x0A] @ ''    '' @ [CHR 0xE2, CHR 0x94, CHR 0x82, CHR 0x0A] @
     ''    '' @
     [CHR 0xE2, CHR 0x94, CHR 0x94, CHR 0xE2, CHR 0x94, CHR 0x80, CHR 0xE2, CHR 0x94, CHR 0x80] @
     '' FASE 2: EXPANS'' @ [CHR 0xC3, CHR 0x83] @ ''O'' @ [CHR 0x0A] @ ''        '' @
     [CHR 0xE2, CHR 0x94, CHR 0x9C, CHR 0xE2, CHR 0x94, CHR 0x80, CHR 0xE2, CHR 0x94, CHR 0x80] @
     '' Estrat'' @ [CHR 0xC3, CHR 0xA9] @ ''gia'' @ [CHR 0x0A] @ ''        '' @
     [CHR 0xE2, CHR 0x94, CHR 0x94, CHR 0xE2, CHR 0x94, CHR 0x80, CHR 0xE2, CHR 0x94, CHR 0x80] @
     '' Execu'' @ [CHR 0xC3, CHR 0xA7, CHR 0xC3, CHR 0xA3] @ ''o'' @ [CHR 0x0A] @ ''    '' @
     [CHR 0x0A] @ ''    Gere apenas o mapa. Sem introdu'' @
     [CHR 0xC3, CHR 0xA7, CHR 0xC3, CHR 0xB5] @ ''es.'' @ [CHR 0x0A] @ ''  ''"

definition mindMapPrompt :: "string \<Rightarrow> string" where
  "mindMapPrompt topic = PROMPT_BEFORE_TOPIC @ topic @ PROMPT_AFTER_TOPIC"

text \<open>
  \<open>for (const key of GROUP_B_KEYS)\<close>: the first answer ends the loop with
  \<open>response.text || null\<close>; a failure is logged and the next key is tried.
  \<open>None\<close> is \<open>null\<close>.
\<close>

fun generateMindMapText_loop ::
  "sdk \<Rightarrow> string \<Rightarrow> string list \<Rightarrow> world \<Rightarrow> string option \<times> world" where
  "generateMindMapText_loop k prompt [] w = (None, w)"
| "generateMindMapText_loop k prompt (key # keys) w =
     (case generateContent k key TEXT_MODEL prompt w of
        (Inr resp, w1) \<Rightarrow> (js_or (response_text resp) None, w1)
      | (Inl err, w1) \<Rightarrow>
          generateMindMapText_loop k prompt keys
            (emit (console_warn ''[MindMap AI] Key failed in Group B.'' err) w1))"

definition generateMindMapText ::
  "environ \<Rightarrow> sdk \<Rightarrow> string \<Rightarrow> module_state \<Rightarrow> world
     \<Rightarrow> string option \<times> module_state \<times> world" where
  "generateMindMapText e k topic st w =
     (case generateMindMapText_loop k (mindMapPrompt topic) (GROUP_B_KEYS e) w of
        (r, w1) \<Rightarrow> (r, st, w1))"

definition generateMindMapImage ::
  "string \<Rightarrow> module_state \<Rightarrow> world \<Rightarrow> string option \<times> module_state \<times> world" where
  "generateMindMapImage prompt st w = (None, st, w)"

subsection \<open>Runs of the module\<close>

text \<open>
  The states the module can be in: the one it is loaded with, and the one any exported
  operation leaves, for any arguments and any behaviour of the SDK. Operations run one
  after the other.
\<close>

inductive reachable :: "environ \<Rightarrow> module_state \<Rightarrow> bool" for e :: environ where
  reachable_initial: "reachable e initial_state"
| reachable_sendMessageToGemini:
    "reachable e st \<Longrightarrow> sendMessageToGemini e k message imagePart st w = (r, st', w')
       \<Longrightarrow> reachable e st'"
| reachable_generateMindMapText:
    "reachable e st \<Longrightarrow> generateMindMapText e k topic st w = (r, st', w')
       \<Longrightarrow> reachable e st'"
| reachable_generateMindMapImage:
    "reachable e st \<Longrightarrow> generateMindMapImage prompt st w = (r, st', w')
       \<Longrightarrow> reachable e st'"

text \<open>What a trace says about requests: the sends it holds, and the keys they used.\<close>

fun is_send :: "event \<Rightarrow> bool" where
  "is_send (Call_sendMessage c ps) = True"
| "is_send ev = False"

definition send_attempts :: "event list \<Rightarrow> nat" where
  "send_attempts evs = length (filter is_send evs)"

fun chat_keys_used :: "event list \<Rightarrow> string option list" where
  "chat_keys_used [] = []"
| "chat_keys_used (Call_sendMessage c ps # evs) = apiKey c # chat_keys_used evs"
| "chat_keys_used (ev # evs) = chat_keys_used evs"

fun map_keys_used :: "event list \<Rightarrow> string list" where
  "map_keys_used [] = []"
| "map_keys_used (Call_generateContent key m prompt # evs) = key # map_keys_used evs"
| "map_keys_used (ev # evs) = map_keys_used evs"

text \<open>
  The two module variables agree: an empty slot goes with index 0, and a session in the
  slot was created with the key the index points at.
\<close>

definition state_ok :: "environ \<Rightarrow> module_state \<Rightarrow> bool" where
  "state_ok e st =
     (case currentChatSession st of
        None \<Rightarrow> currentKeyIndexGroupA st = 0
      | Some c \<Rightarrow>
          currentKeyIndexGroupA st < length (GROUP_A_KEYS e) \<and>
          apiKey c = Some (GROUP_A_KEYS e ! currentKeyIndexGroupA st))"

text \<open>\<open>r\<close> is the text of an answer the service gave to \<open>ps\<close>.\<close>

definition answer_of :: "sdk \<Rightarrow> part list \<Rightarrow> string \<Rightarrow> bool" where
  "answer_of k ps r =
     (\<exists>t c resp h. sendMessage_outcome k t c ps = (Inr resp, h) \<and> response_text resp = Some r)"

section \<open>The single-key copy of the module (src/unnamed/part_001)\<close>

text \<open>
  A second copy of the service lives in the repository. It has one credential, one
  module variable (the session slot, no key index), no fallback loop, and a \<open>catch\<close>
  block that reads the error's text. Its definitions carry the suffix \<open>_alt\<close>;
  \<open>createSession\<close>, the prompt and the SDK are the same.
\<close>

definition getPrimaryApiKey :: "environ \<Rightarrow> string option" where
  "getPrimaryApiKey e =
     (if truthy (env_lookup (import_meta_env e) ''VITE_API_KEY'')
      then env_lookup (import_meta_env e) ''VITE_API_KEY''
      else if truthy (env_lookup (process_env e) ''VITE_API_KEY'')
      then env_lookup (process_env e) ''VITE_API_KEY''
      else if truthy (env_lookup (process_env e) ''API_KEY'')
      then env_lookup (process_env e) ''API_KEY''
      else None)"

definition PRIMARY_KEY_alt :: "environ \<Rightarrow> string option" where
  "PRIMARY_KEY_alt e = getPrimaryApiKey e"

definition GROUP_A_KEYS_alt :: "environ \<Rightarrow> string list" where
  "GROUP_A_KEYS_alt e = filter_Boolean [PRIMARY_KEY_alt e]"

definition GROUP_B_KEYS_alt :: "environ \<Rightarrow> string list" where
  "GROUP_B_KEYS_alt e = filter_Boolean [PRIMARY_KEY_alt e]"

text \<open>
  The state is the slot alone. The function returns the slot, which is still
  \<open>null\<close> when there is no key.
\<close>

definition getOrInitSession_alt :: "environ \<Rightarrow> chat option \<Rightarrow> chat option \<times> chat option" where
  "getOrInitSession_alt e slot =
     (case slot of
        None \<Rightarrow>
          (let keyToUse = (if length (GROUP_A_KEYS_alt e) > 0 then js_index (GROUP_A_KEYS_alt e) 0
                           else Some [])
           in if truthy keyToUse
              then (Some (createSession keyToUse None), Some (createSession keyToUse None))
              else (None, None))
      | Some c \<Rightarrow> (Some c, Some c))"

definition MSG_CONFIG_alt :: string where
  "MSG_CONFIG_alt =
     ''ERRO DE CONFIGURA'' @ [CHR 0xC3, CHR 0x87, CHR 0xC3, CHR 0x83] @ ''O (Vercel): '' @
     [CHR 0x0A] @ ''1. V'' @ [CHR 0xC3, CHR 0xA1] @ '' em Settings '' @ [CHR 0x3E] @
     '' Environment Variables. '' @ [CHR 0x0A] @ ''2. Adicione a chave com o nome '' @
     [CHR 0x27] @ ''VITE_API_KEY'' @ [CHR 0x27] @ ''. '' @ [CHR 0x0A] @ ''3. Fa'' @
     [CHR 0xC3, CHR 0xA7] @ ''a um novo Deploy.''"

definition MSG_MODEL_NOT_FOUND :: string where
  "MSG_MODEL_NOT_FOUND =
     ''ERRO CR'' @ [CHR 0xC3, CHR 0x8D] @ ''TICO: Modelo de IA n'' @ [CHR 0xC3, CHR 0xA3] @
     ''o dispon'' @ [CHR 0xC3, CHR 0xAD] @
     ''vel para esta chave. Verifique se sua API Key tem acesso ao Gemini 2.0 Flash.''"

definition MSG_OVERLOADED :: string where
  "MSG_OVERLOADED =
     ''ERRO: O sistema est'' @ [CHR 0xC3, CHR 0xA1] @
     '' sobrecarregado. Aguarde alguns segundos e tente novamente.''"

definition MSG_SYSTEM :: string where
  "MSG_SYSTEM =
     ''ERRO DE SISTEMA: Verifique sua conex'' @ [CHR 0xC3, CHR 0xA3] @ ''o ou a configura'' @
     [CHR 0xC3, CHR 0xA7, CHR 0xC3, CHR 0xA3] @ ''o da API Key.''"

definition session_not_initialised :: jserror where
  "session_not_initialised =
     JsError (''Error: Sess'' @ [CHR 0xC3, CHR 0xA3] @ ''o n'' @ [CHR 0xC3, CHR 0xA3] @
              ''o inicializada.'')"

text \<open>\<open>s.includes(n)\<close>.\<close>

fun startsWith :: "string \<Rightarrow> string \<Rightarrow> bool" where
  "startsWith s [] = True"
| "startsWith [] (n # ns) = False"
| "startsWith (x # xs) (n # ns) = (x = n \<and> startsWith xs ns)"

fun js_includes :: "string \<Rightarrow> string \<Rightarrow> bool" where
  "js_includes [] n = (n = [])"
| "js_includes (x # xs) n = (startsWith (x # xs) n \<or> js_includes xs n)"

text \<open>The \<open>catch\<close> block.\<close>

definition handle_failure_alt :: "jserror \<Rightarrow> world \<Rightarrow> string \<times> world" where
  "handle_failure_alt err w =
     (let w1 = emit (console_warn ''[Mentor AI] Request failed.'' err) w
      in if js_includes (toString err) ''404'' \<or> js_includes (toString err) ''not found''
         then (MSG_MODEL_NOT_FOUND, w1)
         else if js_includes (toString err) ''429'' \<or> js_includes (toString err) ''503''
         then (MSG_OVERLOADED, w1)
         else (MSG_SYSTEM, w1))"

definition sendMessageToGemini_alt ::
  "environ \<Rightarrow> sdk \<Rightarrow> string \<Rightarrow> inlineData option \<Rightarrow> chat option \<Rightarrow> world
     \<Rightarrow> string \<times> chat option \<times> world" where
  "sendMessageToGemini_alt e k message imagePart slot w =
     (if \<not> truthy (PRIMARY_KEY_alt e)
      then (MSG_CONFIG_alt, slot, emit (console_error ''Mentor AI: API Key is missing.'') w)
      else
        (case getOrInitSession_alt e slot of
           (None, slot1) \<Rightarrow>
             (case handle_failure_alt session_not_initialised w of
                (r, w1) \<Rightarrow> (r, slot1, w1))
         | (Some session, slot1) \<Rightarrow>
             (case sendMessage k session (user_parts message imagePart) w of
                (Inr resp, session', w1) \<Rightarrow>
                  (js_or_default (response_text resp) MSG_NO_RESPONSE, Some session', w1)
              | (Inl err, session', w1) \<Rightarrow>
                  (case handle_failure_alt err w1 of
                     (r, w2) \<Rightarrow> (r, Some session', w2)))))"

definition generateMindMapText_alt ::
  "environ \<Rightarrow> sdk \<Rightarrow> string \<Rightarrow> chat option \<Rightarrow> world
     \<Rightarrow> string option \<times> chat option \<times> world" where
  "generateMindMapText_alt e k topic slot w =
     (case PRIMARY_KEY_alt e of
        None \<Rightarrow> (None, slot, w)
      | Some key \<Rightarrow>
          if key = [] then (None, slot, w)
          else (case generateContent k key TEXT_MODEL (mindMapPrompt topic) w of
                  (Inr resp, w1) \<Rightarrow> (js_or (response_text resp) None, slot, w1)
                | (Inl err, w1) \<Rightarrow>
                    (None, slot, emit (console_warn ''[MindMap AI] Failed.'' err) w1)))"

definition generateMindMapImage_alt ::
  "string \<Rightarrow> chat option \<Rightarrow> world \<Rightarrow> string option \<times> chat option \<times> world" where
  "generateMindMapImage_alt prompt slot w = (None, slot, w)"

section \<open>Sample environments and services\<close>

text \<open>
  Concrete inputs on which the theorems below are run: a build with two chat keys, a
  build with only the shared primary key, a build with none; and a remote service that
  is down from one moment until another and answers otherwise.
\<close>

definition env_two_keys :: environ where
  "env_two_keys =
     \<lparr>import_meta_env = None,
      process_env = Some [''API_KEY_A1'' \<mapsto> ''k1'', ''API_KEY_A2'' \<mapsto> ''k2'']\<rparr>"

definition env_primary_only :: environ where
  "env_primary_only =
     \<lparr>import_meta_env = Some [''VITE_API_KEY'' \<mapsto> ''kp''], process_env = None\<rparr>"

definition env_no_keys :: environ where
  "env_no_keys = \<lparr>import_meta_env = None, process_env = None\<rparr>"

definition sample_sdk :: "nat \<Rightarrow> nat \<Rightarrow> string \<Rightarrow> bool \<Rightarrow> sdk" where
  "sample_sdk down_from up_from failure history_throws =
     \<lparr>sendMessage_outcome =
        (\<lambda>t c ps.
           if down_from \<le> t \<and> t < up_from then (Inl (JsError failure), history c)
           else (Inr \<lparr>response_text = Some ''ok''\<rparr>,
                 history c @
                   [\<lparr>content_role = ''user'', content_parts = ps\<rparr>,
                    \<lparr>content_role = ''model'', content_parts = [TextPart ''ok'']\<rparr>])),
      getHistory_outcome =
        (\<lambda>t c. if history_throws then Some (JsError ''history unavailable'') else None),
      generateContent_outcome =
        (\<lambda>t key m prompt.
           if down_from \<le> t \<and> t < up_from then Inl (JsError failure)
           else Inr \<lparr>response_text = Some ''mapa''\<rparr>)\<rparr>"

definition world0 :: world where
  "world0 = \<lparr>now = 0, trace = []\<rparr>"

definition chat_k1 :: chat where
  "chat_k1 = \<lparr>apiKey = Some ''k1'', model = TEXT_MODEL, history = []\<rparr>"

definition chat_k2 :: chat where
  "chat_k2 = \<lparr>apiKey = Some ''k2'', model = TEXT_MODEL, history = []\<rparr>"

definition sample_sdk_down :: "string \<Rightarrow> bool \<Rightarrow> sdk" where
  "sample_sdk_down failure history_throws =
     \<lparr>sendMessage_outcome = (\<lambda>t c ps. (Inl (JsError failure), history c)),
      getHistory_outcome =
        (\<lambda>t c. if history_throws then Some (JsError ''history unavailable'') else None),
      generateContent_outcome = (\<lambda>t key m prompt. Inl (JsError failure))\<rparr>"

definition st_k1 :: module_state where
  "st_k1 = \<lparr>currentChatSession = Some chat_k1, currentKeyIndexGroupA = 0\<rparr>"

definition st_k2 :: module_state where
  "st_k2 = \<lparr>currentChatSession = Some chat_k2, currentKeyIndexGroupA = 1\<rparr>"

definition talk :: "content list" where
  "talk = [\<lparr>content_role = ''user'', content_parts = [TextPart ''oi'']\<rparr>,
           \<lparr>content_role = ''model'', content_parts = [TextPart ''ok'']\<rparr>]"

definition chat_talked :: chat where
  "chat_talked = \<lparr>apiKey = Some ''k1'', model = TEXT_MODEL, history = talk\<rparr>"

definition st_talked :: module_state where
  "st_talked = \<lparr>currentChatSession = Some chat_talked, currentKeyIndexGroupA = 0\<rparr>"

definition w_talked :: world where
  "w_talked = \<lparr>now = 1, trace = [Call_sendMessage chat_k1 [TextPart ''oi'']]\<rparr>"

definition chat_kp :: chat where
  "chat_kp = \<lparr>apiKey = Some ''kp'', model = TEXT_MODEL, history = []\<rparr>"

definition st_second :: module_state where
  "st_second =
     \<lparr>currentChatSession = Some (chat_k2\<lparr>history := talk\<rparr>), currentKeyIndexGroupA = 1\<rparr>"

text \<open>
  The same service throwing other errors: \<open>with_errors f k\<close> fails exactly when
  \<open>k\<close> fails, with the error \<open>f\<close> makes of the one \<open>k\<close> throws. Two
  worlds are \<open>same_but_errors\<close> when they differ at most in the error objects
  printed with the warnings.
\<close>

definition with_errors :: "(jserror \<Rightarrow> jserror) \<Rightarrow> sdk \<Rightarrow> sdk" where
  "with_errors f k =
     k\<lparr>sendMessage_outcome :=
         (\<lambda>t c ps. case sendMessage_outcome k t c ps of
                      (Inl err, h) \<Rightarrow> (Inl (f err), h)
                    | (Inr resp, h) \<Rightarrow> (Inr resp, h)),
       getHistory_outcome := (\<lambda>t c. map_option f (getHistory_outcome k t c))\<rparr>"

fun without_error :: "event \<Rightarrow> event" where
  "without_error (console_warn m err) = console_warn m (JsError [])"
| "without_error ev = ev"

definition same_but_errors :: "world \<Rightarrow> world \<Rightarrow> bool" where
  "same_but_errors v w =
     (now v = now w \<and> map without_error (trace v) = map without_error (trace w))"

definition w_first_failed :: world where
  "w_first_failed =
     \<lparr>now = 2,
      trace = [Call_sendMessage chat_k1 [TextPart ''oi''],
               console_warn (key_failed_msg 0) (JsError ''503''),
               Call_getHistory chat_k1,
               console_log (switching_msg 1)]\<rparr>"

definition w_all_failed :: world where
  "w_all_failed =
     \<lparr>now = 3,
      trace = [Call_sendMessage chat_k1 [TextPart ''oi''],
               console_warn (key_failed_msg 0) (JsError ''503''),
               Call_getHistory chat_k1,
               console_log (switching_msg 1),
               Call_sendMessage chat_k2 [TextPart ''oi''],
               console_warn (key_failed_msg 1) (JsError ''503''),
               console_error ''[Mentor AI] All keys in Group A failed.'']\<rparr>"

definition w_talked_failed :: world where
  "w_talked_failed =
     \<lparr>now = 3,
      trace = [Call_sendMessage chat_k1 [TextPart ''oi''],
               Call_sendMessage chat_talked [TextPart ''e agora''],
               console_warn (key_failed_msg 0) (JsError ''503''),
               Call_getHistory chat_talked,
               console_log (switching_msg 1)]\<rparr>"

definition w_talk_lost :: world where
  "w_talk_lost =
     \<lparr>now = 4,
      trace = [Call_sendMessage chat_k1 [TextPart ''oi''],
               Call_sendMessage chat_talked [TextPart ''e agora''],
               console_warn (key_failed_msg 0) (JsError ''503''),
               Call_getHistory chat_talked,
               console_warn ''Could not retrieve history from failed session.''
                 (JsError ''history unavailable''),
               console_log (switching_msg 1),
               Call_sendMessage chat_k2 [TextPart ''e agora''],
               console_warn (key_failed_msg 1) (JsError ''503''),
               console_error ''[Mentor AI] All keys in Group A failed.'']\<rparr>"

section \<open>Auxiliary facts\<close>

lemma filter_Boolean_nonempty: "s \<in> set (filter_Boolean vs) \<Longrightarrow> s \<noteq> []"
  by (induction vs rule: filter_Boolean.induct) (auto split: if_splits)

lemma filter_Boolean_length: "length (filter_Boolean vs) \<le> length vs"
  by (induction vs rule: filter_Boolean.induct) auto

lemma GROUP_A_KEYS_nonempty: "s \<in> set (GROUP_A_KEYS e) \<Longrightarrow> s \<noteq> []"
  unfolding GROUP_A_KEYS_def by (rule filter_Boolean_nonempty)

lemma GROUP_A_KEYS_length: "length (GROUP_A_KEYS e) \<le> 3"
  unfolding GROUP_A_KEYS_def by (rule order_trans[OF filter_Boolean_length]) simp

lemma now_emit [simp]: "now (emit ev w) = now w"
  by (simp add: emit_def)

lemma trace_emit [simp]: "trace (emit ev w) = trace w @ [ev]"
  by (simp add: emit_def)

lemma getOrInitSession_Some:
  "currentChatSession st = Some c \<Longrightarrow> getOrInitSession e st = (c, st)"
  by (simp add: getOrInitSession_def)

lemma getOrInitSession_None:
  "currentChatSession st = None \<Longrightarrow>
   getOrInitSession e st =
     (createSession (Some (js_or_default (js_index (GROUP_A_KEYS e) 0) ''MISSING_KEY'')) None,
      \<lparr>currentChatSession =
         Some (createSession (Some (js_or_default (js_index (GROUP_A_KEYS e) 0) ''MISSING_KEY'')) None),
       currentKeyIndexGroupA = 0\<rparr>)"
  by (simp add: getOrInitSession_def Let_def)

lemma first_key:
  "GROUP_A_KEYS e \<noteq> [] \<Longrightarrow>
   js_or_default (js_index (GROUP_A_KEYS e) 0) ''MISSING_KEY'' = GROUP_A_KEYS e ! 0"
  using GROUP_A_KEYS_nonempty[of "GROUP_A_KEYS e ! 0" e]
  by (auto simp: js_or_default_def js_index_def)

lemma getOrInitSession_slot:
  "getOrInitSession e st = (c, st1) \<Longrightarrow> currentChatSession st1 = Some c"
  by (auto simp: getOrInitSession_def Let_def split: option.splits)

lemma getOrInitSession_ok:
  "GROUP_A_KEYS e \<noteq> [] \<Longrightarrow> state_ok e st \<Longrightarrow> getOrInitSession e st = (c, st1) \<Longrightarrow>
   state_ok e st1 \<and> currentKeyIndexGroupA st1 < length (GROUP_A_KEYS e) \<and>
   apiKey c = Some (GROUP_A_KEYS e ! currentKeyIndexGroupA st1)"
  using first_key[of e]
  by (auto simp: getOrInitSession_def Let_def state_ok_def createSession_def split: option.splits)

text \<open>The three ways a pass of the loop can go, in closed form.\<close>

lemma attempt_body_answer:
  assumes "getOrInitSession e st = (c, st1)"
      and "sendMessage_outcome k (now w) c ps = (Inr resp, h)"
  shows "attempt_body e k ps a st w =
           (Some (js_or_default (response_text resp) MSG_NO_RESPONSE),
            st1\<lparr>currentChatSession := Some (c\<lparr>history := h\<rparr>)\<rparr>,
            \<lparr>now = Suc (now w), trace = trace w @ [Call_sendMessage c ps]\<rparr>)"
  using assms by (simp add: attempt_body_def sendMessage_def emit_def)

lemma attempt_body_last_failure:
  assumes "getOrInitSession e st = (c, st1)"
      and "sendMessage_outcome k (now w) c ps = (Inl err, h)"
      and "a = length (GROUP_A_KEYS e) - 1"
  shows "attempt_body e k ps a st w =
           (Some MSG_CRITICAL,
            st1\<lparr>currentChatSession := Some (c\<lparr>history := h\<rparr>)\<rparr>,
            \<lparr>now = Suc (now w),
             trace = trace w @
               [Call_sendMessage c ps,
                console_warn (key_failed_msg (currentKeyIndexGroupA st1)) err,
                console_error ''[Mentor AI] All keys in Group A failed.'']\<rparr>)"
  using assms by (simp add: attempt_body_def sendMessage_def emit_def Let_def)

lemma attempt_body_failure:
  assumes "getOrInitSession e st = (c, st1)"
      and "sendMessage_outcome k (now w) c ps = (Inl err, h)"
      and "a \<noteq> length (GROUP_A_KEYS e) - 1"
  shows "attempt_body e k ps a st w =
           (None,
            \<lparr>currentChatSession =
               Some (createSession
                 (js_index (GROUP_A_KEYS e)
                    ((currentKeyIndexGroupA st1 + 1) mod length (GROUP_A_KEYS e)))
                 (Some (case getHistory_outcome k (Suc (now w)) (c\<lparr>history := h\<rparr>) of
                          None \<Rightarrow> h | Some hError \<Rightarrow> []))),
             currentKeyIndexGroupA =
               (currentKeyIndexGroupA st1 + 1) mod length (GROUP_A_KEYS e)\<rparr>,
            \<lparr>now = Suc (Suc (now w)),
             trace = trace w @
               [Call_sendMessage c ps,
                console_warn (key_failed_msg (currentKeyIndexGroupA st1)) err,
                Call_getHistory (c\<lparr>history := h\<rparr>)] @
               (case getHistory_outcome k (Suc (now w)) (c\<lparr>history := h\<rparr>) of
                  None \<Rightarrow> []
                | Some hError \<Rightarrow>
                    [console_warn ''Could not retrieve history from failed session.'' hError]) @
               [console_log
                  (switching_msg
                     ((currentKeyIndexGroupA st1 + 1) mod length (GROUP_A_KEYS e)))]\<rparr>)"
  using assms
  by (simp add: attempt_body_def sendMessage_def emit_def Let_def fallback_procedure_def
      getOrInitSession_Some recover_history_def getHistory_def split: option.splits)


lemma send_attempts_append [simp]:
  "send_attempts (xs @ ys) = send_attempts xs + send_attempts ys"
  by (simp add: send_attempts_def)

lemma send_attempts_simps [simp]:
  "send_attempts [] = 0"
  "send_attempts (ev # evs) = (if is_send ev then 1 else 0) + send_attempts evs"
  by (simp_all add: send_attempts_def)

lemma chat_keys_used_append [simp]:
  "chat_keys_used (xs @ ys) = chat_keys_used xs @ chat_keys_used ys"
  by (induction xs rule: chat_keys_used.induct) simp_all

lemma map_keys_used_append [simp]:
  "map_keys_used (xs @ ys) = map_keys_used xs @ map_keys_used ys"
  by (induction xs rule: map_keys_used.induct) simp_all

lemma apiKey_createSession [simp]: "apiKey (createSession key hist) = key"
  by (simp add: createSession_def)

lemma history_createSession [simp]:
  "history (createSession key (Some h)) = h" "history (createSession key None) = []"
  by (simp_all add: createSession_def)

lemma js_or_default_cases:
  "js_or_default v d = d \<or> v = Some (js_or_default v d)"
  by (auto simp: js_or_default_def split: option.splits)

lemma attempt_body_main:
  assumes keys: "GROUP_A_KEYS e \<noteq> []"
      and body: "attempt_body e k ps a st w = (r, st', w')"
  shows "(\<exists>evs. trace w' = trace w @ evs \<and> send_attempts evs = 1 \<and> map_keys_used evs = [] \<and>
            (state_ok e st \<longrightarrow> set (chat_keys_used evs) \<subseteq> Some ` set (GROUP_A_KEYS e))) \<and>
         (state_ok e st \<longrightarrow> state_ok e st') \<and>
         currentChatSession st' \<noteq> None \<and>
         (r = None \<longrightarrow> a \<noteq> length (GROUP_A_KEYS e) - 1) \<and>
         (\<forall>x. r = Some x \<longrightarrow> x = MSG_CRITICAL \<or> x = MSG_NO_RESPONSE \<or> answer_of k ps x)"
proof -
  obtain c st1 where g: "getOrInitSession e st = (c, st1)"
    by (cases "getOrInitSession e st")
  obtain out h where s: "sendMessage_outcome k (now w) c ps = (out, h)"
    by (cases "sendMessage_outcome k (now w) c ps")
  have ok1: "state_ok e st \<Longrightarrow> state_ok e st1 \<and>
      currentKeyIndexGroupA st1 < length (GROUP_A_KEYS e) \<and>
      apiKey c = Some (GROUP_A_KEYS e ! currentKeyIndexGroupA st1)"
    using getOrInitSession_ok[OF keys _ g] by simp
  have slot1: "currentChatSession st1 = Some c"
    using g by (rule getOrInitSession_slot)
  show ?thesis
  proof (cases out)
    case (Inr resp)
    have b: "attempt_body e k ps a st w =
           (Some (js_or_default (response_text resp) MSG_NO_RESPONSE),
            st1\<lparr>currentChatSession := Some (c\<lparr>history := h\<rparr>)\<rparr>,
            \<lparr>now = Suc (now w), trace = trace w @ [Call_sendMessage c ps]\<rparr>)"
      using attempt_body_answer[OF g] s Inr by simp
    have ans: "js_or_default (response_text resp) MSG_NO_RESPONSE = MSG_NO_RESPONSE \<or>
               answer_of k ps (js_or_default (response_text resp) MSG_NO_RESPONSE)"
      using js_or_default_cases[of "response_text resp" MSG_NO_RESPONSE] s Inr
      unfolding answer_of_def by blast
    from b body ok1 ans show ?thesis
      by (auto simp: state_ok_def)
  next
    case (Inl err)
    show ?thesis
    proof (cases "a = length (GROUP_A_KEYS e) - 1")
      case True
      from attempt_body_last_failure[OF g _ True] s Inl body ok1 show ?thesis
        by (auto simp: state_ok_def)
    next
      case False
      have m: "(currentKeyIndexGroupA st1 + 1) mod length (GROUP_A_KEYS e) < length (GROUP_A_KEYS e)"
        using keys by simp
      from attempt_body_failure[OF g _ False] s Inl body ok1 m False show ?thesis
        by (auto simp: state_ok_def js_index_def split: option.splits)
    qed
  qed
qed

declare sendMessageToGemini_loop.simps [simp del]

lemma sendMessageToGemini_loop_main:
  assumes "attempt < length (GROUP_A_KEYS e)"
      and "sendMessageToGemini_loop e k ps attempt st w = (r, st', w')"
  shows "(\<exists>evs. trace w' = trace w @ evs \<and> 0 < send_attempts evs \<and>
            send_attempts evs \<le> length (GROUP_A_KEYS e) - attempt \<and> map_keys_used evs = [] \<and>
            (state_ok e st \<longrightarrow> set (chat_keys_used evs) \<subseteq> Some ` set (GROUP_A_KEYS e))) \<and>
         (state_ok e st \<longrightarrow> state_ok e st') \<and>
         currentChatSession st' \<noteq> None \<and>
         (r = MSG_CRITICAL \<or> r = MSG_NO_RESPONSE \<or> answer_of k ps r)"
  using assms
proof (induction "length (GROUP_A_KEYS e) - attempt" arbitrary: attempt st w)
  case 0
  then show ?case by simp
next
  case (Suc n)
  have keys: "GROUP_A_KEYS e \<noteq> []" using Suc.prems(1) by auto
  obtain x st1 w1 where b: "attempt_body e k ps attempt st w = (x, st1, w1)"
    by (cases "attempt_body e k ps attempt st w")
  note m = attempt_body_main[OF keys b]
  show ?case
  proof (cases x)
    case (Some y)
    with b Suc.prems have "r = y" "st' = st1" "w' = w1"
      by (simp_all add: sendMessageToGemini_loop.simps[of e k ps attempt])
    with m Some Suc.prems(1) show ?thesis by auto
  next
    case None
    with m have more: "Suc attempt < length (GROUP_A_KEYS e)"
      using Suc.prems(1) by auto
    have n: "n = length (GROUP_A_KEYS e) - Suc attempt" using Suc.hyps(2) by simp
    have l: "sendMessageToGemini_loop e k ps (Suc attempt) st1 w1 = (r, st', w')"
      using b None Suc.prems by (simp add: sendMessageToGemini_loop.simps[of e k ps attempt])
    note ih = Suc.hyps(1)[OF n more l]
    from m obtain evs1 where e1: "trace w1 = trace w @ evs1" "send_attempts evs1 = 1"
      "map_keys_used evs1 = []"
      "state_ok e st \<longrightarrow> set (chat_keys_used evs1) \<subseteq> Some ` set (GROUP_A_KEYS e)"
      by blast
    from ih obtain evs2 where e2: "trace w' = trace w1 @ evs2" "0 < send_attempts evs2"
      "send_attempts evs2 \<le> length (GROUP_A_KEYS e) - Suc attempt" "map_keys_used evs2 = []"
      "state_ok e st1 \<longrightarrow> set (chat_keys_used evs2) \<subseteq> Some ` set (GROUP_A_KEYS e)"
      by blast
    have "trace w' = trace w @ (evs1 @ evs2)" using e1 e2 by simp
    moreover have "0 < send_attempts (evs1 @ evs2)" using e1 by simp
    moreover have "send_attempts (evs1 @ evs2) \<le> length (GROUP_A_KEYS e) - attempt"
      using e1 e2 more by simp
    moreover have "map_keys_used (evs1 @ evs2) = []" using e1 e2 by simp
    moreover have "state_ok e st \<longrightarrow>
        set (chat_keys_used (evs1 @ evs2)) \<subseteq> Some ` set (GROUP_A_KEYS e)"
      using e1 e2 m by auto
    ultimately have ex: "\<exists>evs. trace w' = trace w @ evs \<and> 0 < send_attempts evs \<and>
            send_attempts evs \<le> length (GROUP_A_KEYS e) - attempt \<and> map_keys_used evs = [] \<and>
            (state_ok e st \<longrightarrow> set (chat_keys_used evs) \<subseteq> Some ` set (GROUP_A_KEYS e))"
      by blast
    from ex ih m show ?thesis by blast
  qed
qed

lemma keys_env_two_keys:
  "GROUP_A_KEYS env_two_keys = [''k1'', ''k2'']" "GROUP_B_KEYS env_two_keys = []"
  by (simp_all add: GROUP_A_KEYS_def GROUP_B_KEYS_def PRIMARY_KEY_def getEnv_def env_lookup_def
      env_two_keys_def js_or_def truthy_def)

lemma keys_env_primary_only:
  "GROUP_A_KEYS env_primary_only = [''kp'']" "GROUP_B_KEYS env_primary_only = [''kp'']"
  by (simp_all add: GROUP_A_KEYS_def GROUP_B_KEYS_def PRIMARY_KEY_def getEnv_def env_lookup_def
      env_primary_only_def js_or_def truthy_def)

lemma keys_env_no_keys:
  "GROUP_A_KEYS env_no_keys = []" "GROUP_B_KEYS env_no_keys = []"
  by (simp_all add: GROUP_A_KEYS_def GROUP_B_KEYS_def PRIMARY_KEY_def getEnv_def env_lookup_def
      env_no_keys_def js_or_def truthy_def)

text \<open>A run in which the first key fails and the second answers.\<close>

lemma sample_run_second_key:
  "sendMessageToGemini env_two_keys (sample_sdk 0 1 ''503'' False) ''oi'' None initial_state world0 =
     (''ok'',
      \<lparr>currentChatSession = Some (chat_k2\<lparr>history :=
          [\<lparr>content_role = ''user'', content_parts = [TextPart ''oi'']\<rparr>,
           \<lparr>content_role = ''model'', content_parts = [TextPart ''ok'']\<rparr>]\<rparr>),
       currentKeyIndexGroupA = 1\<rparr>,
      \<lparr>now = 3,
       trace = [Call_sendMessage chat_k1 [TextPart ''oi''],
                console_warn (key_failed_msg 0) (JsError ''503''),
                Call_getHistory chat_k1,
                console_log (switching_msg 1),
                Call_sendMessage chat_k2 [TextPart ''oi'']]\<rparr>)"
  by (simp add: sendMessageToGemini_def keys_env_two_keys sendMessageToGemini_loop.simps
      attempt_body_def getOrInitSession_def fallback_procedure_def recover_history_def
      getHistory_def sendMessage_def emit_def Let_def createSession_def js_index_def
      js_or_default_def initial_state_def world0_def sample_sdk_def user_parts_def
      chat_k1_def chat_k2_def MSG_NO_RESPONSE_def)

lemma sendMessageToGemini_loop_all_fail:
  assumes "\<forall>t c. isl (fst (sendMessage_outcome k t c ps))"
      and "attempt < length (GROUP_A_KEYS e)"
  shows "fst (sendMessageToGemini_loop e k ps attempt st w) = MSG_CRITICAL"
  using assms(2)
proof (induction "length (GROUP_A_KEYS e) - attempt" arbitrary: attempt st w)
  case 0
  then show ?case by simp
next
  case (Suc n)
  obtain c st1 where g: "getOrInitSession e st = (c, st1)"
    by (cases "getOrInitSession e st")
  obtain out h where s: "sendMessage_outcome k (now w) c ps = (out, h)"
    by (cases "sendMessage_outcome k (now w) c ps")
  have "isl (fst (sendMessage_outcome k (now w) c ps))"
    using assms(1) by blast
  with s obtain err where out: "out = Inl err"
    by (cases out) auto
  show ?case
  proof (cases "attempt = length (GROUP_A_KEYS e) - 1")
    case True
    from attempt_body_last_failure[OF g _ True] s out Suc.prems show ?thesis
      by (simp add: sendMessageToGemini_loop.simps[of e k ps attempt])
  next
    case False
    then have more: "Suc attempt < length (GROUP_A_KEYS e)" using Suc.prems by auto
    have n: "n = length (GROUP_A_KEYS e) - Suc attempt" using Suc.hyps(2) by simp
    from attempt_body_failure[OF g _ False] s out Suc.prems Suc.hyps(1)[OF n more]
    show ?thesis
      by (simp add: sendMessageToGemini_loop.simps[of e k ps attempt])
  qed
qed

lemma attempt_body_sends_first:
  assumes "getOrInitSession e st = (c, st1)"
  shows "\<exists>rest. trace (snd (snd (attempt_body e k ps a st w))) =
           trace w @ Call_sendMessage c ps # rest"
proof -
  obtain out h where s: "sendMessage_outcome k (now w) c ps = (out, h)"
    by (cases "sendMessage_outcome k (now w) c ps")
  show ?thesis
  proof (cases out)
    case (Inr resp)
    with attempt_body_answer[OF assms, of k w ps resp h a] s show ?thesis by simp
  next
    case (Inl err)
    show ?thesis
    proof (cases "a = length (GROUP_A_KEYS e) - 1")
      case True
      with attempt_body_last_failure[OF assms _ True, of k w ps err h] s Inl show ?thesis
        by simp
    next
      case False
      with attempt_body_failure[OF assms _ False, of k w ps err h] s Inl show ?thesis
        by simp
    qed
  qed
qed

lemma getOrInitSession_initial_two_keys:
  "getOrInitSession env_two_keys initial_state = (chat_k1, st_k1)"
  by (simp add: getOrInitSession_def keys_env_two_keys js_index_def js_or_default_def
      createSession_def Let_def initial_state_def chat_k1_def st_k1_def)

text \<open>A conversation on the first key, then the service goes down.\<close>

lemma sample_run_first_key:
  "sendMessageToGemini env_two_keys (sample_sdk 1 10 ''503'' hx) ''oi'' None initial_state world0 =
     (''ok'', st_talked, w_talked)"
proof -
  have s: "sendMessage_outcome (sample_sdk 1 10 ''503'' hx) (now world0) chat_k1 (user_parts ''oi'' None)
            = (Inr \<lparr>response_text = Some ''ok''\<rparr>, talk)"
    by (simp add: sample_sdk_def world0_def chat_k1_def talk_def user_parts_def)
  show ?thesis
    using attempt_body_answer[OF getOrInitSession_initial_two_keys s, of 0]
    by (simp add: sendMessageToGemini_def keys_env_two_keys
        sendMessageToGemini_loop.simps[of _ _ _ 0] js_or_default_def st_k1_def chat_k1_def
        st_talked_def chat_talked_def w_talked_def world0_def user_parts_def)
qed

lemma getOrInitSession_talked:
  "getOrInitSession env_two_keys st_talked = (chat_talked, st_talked)"
  by (simp add: getOrInitSession_def st_talked_def)

text \<open>The module variables stay coherent on every run.\<close>

lemma state_ok_initial: "state_ok e initial_state"
  by (simp add: state_ok_def initial_state_def)

lemma sendMessageToGemini_state_ok:
  assumes "state_ok e st" "sendMessageToGemini e k message imagePart st w = (r, st', w')"
  shows "state_ok e st'"
proof (cases "GROUP_A_KEYS e = []")
  case True
  with assms show ?thesis by (simp add: sendMessageToGemini_def)
next
  case False
  then have pos: "0 < length (GROUP_A_KEYS e)" by simp
  from assms(2) False
  have l: "sendMessageToGemini_loop e k (user_parts message imagePart) 0 st w = (r, st', w')"
    by (simp add: sendMessageToGemini_def)
  from sendMessageToGemini_loop_main[OF pos l] assms(1) show ?thesis by blast
qed

lemma generateMindMapText_state:
  "generateMindMapText e k topic st w = (r, st', w') \<Longrightarrow> st' = st"
  by (auto simp: generateMindMapText_def split: prod.splits)

lemma generateMindMapImage_state:
  "generateMindMapImage prompt st w = (r, st', w') \<Longrightarrow> st' = st"
  by (simp add: generateMindMapImage_def)

lemma reachable_state_ok: "reachable e st \<Longrightarrow> state_ok e st"
proof (induction rule: reachable.induct)
  case reachable_initial
  show ?case by (rule state_ok_initial)
next
  case (reachable_sendMessageToGemini st k message imagePart w r st' w')
  then show ?case by (blast intro: sendMessageToGemini_state_ok)
next
  case (reachable_generateMindMapText st k topic w r st' w')
  then show ?case by (auto dest: generateMindMapText_state)
next
  case (reachable_generateMindMapImage st prompt w r st' w')
  then show ?case by (auto dest: generateMindMapImage_state)
qed

lemma state_ok_index:
  "GROUP_A_KEYS e \<noteq> [] \<Longrightarrow> state_ok e st \<Longrightarrow>
   currentKeyIndexGroupA st < length (GROUP_A_KEYS e)"
  by (auto simp: state_ok_def split: option.splits)

lemma getOrInitSession_index:
  "currentKeyIndexGroupA (snd (getOrInitSession e st)) \<in> {currentKeyIndexGroupA st, 0}"
  by (auto simp: getOrInitSession_def Let_def split: option.splits)

lemma attempt_body_index:
  "currentKeyIndexGroupA (fst (snd (attempt_body e k ps a st w))) \<in>
     {currentKeyIndexGroupA (snd (getOrInitSession e st)),
      (currentKeyIndexGroupA (snd (getOrInitSession e st)) + 1) mod length (GROUP_A_KEYS e)}"
proof -
  obtain c st1 where g: "getOrInitSession e st = (c, st1)"
    by (cases "getOrInitSession e st")
  obtain out h where s: "sendMessage_outcome k (now w) c ps = (out, h)"
    by (cases "sendMessage_outcome k (now w) c ps")
  show ?thesis
  proof (cases out)
    case (Inr resp)
    with attempt_body_answer[OF g, of k w ps resp h a] s g show ?thesis by simp
  next
    case (Inl err)
    show ?thesis
    proof (cases "a = length (GROUP_A_KEYS e) - 1")
      case True
      with attempt_body_last_failure[OF g _ True, of k w ps err h] s Inl g show ?thesis
        by simp
    next
      case False
      with attempt_body_failure[OF g _ False, of k w ps err h] s Inl g show ?thesis
        by simp
    qed
  qed
qed

lemma reachable_st_second: "reachable env_two_keys st_second"
  using reachable_sendMessageToGemini[OF reachable_initial sample_run_second_key]
  by (simp add: st_second_def talk_def)

lemma generateMindMapText_loop_keys:
  "generateMindMapText_loop k prompt keys w = (r, w') \<Longrightarrow>
   \<exists>evs. trace w' = trace w @ evs \<and> set (map_keys_used evs) \<subseteq> set keys \<and>
         chat_keys_used evs = []"
proof (induction keys arbitrary: w)
  case Nil
  then show ?case by simp
next
  case (Cons key keys)
  show ?case
  proof (cases "generateContent_outcome k (now w) key TEXT_MODEL prompt")
    case (Inr resp)
    with Cons.prems have "trace w' = trace w @ [Call_generateContent key TEXT_MODEL prompt]"
      by (auto simp: generateContent_def)
    then show ?thesis by simp
  next
    case (Inl err)
    let ?w1 = "emit (console_warn ''[MindMap AI] Key failed in Group B.'' err)
                 (emit (Call_generateContent key TEXT_MODEL prompt) (w\<lparr>now := Suc (now w)\<rparr>))"
    from Inl Cons.prems have "generateMindMapText_loop k prompt keys ?w1 = (r, w')"
      by (simp add: generateContent_def)
    from Cons.IH[OF this] obtain evs where
      e: "trace w' = trace ?w1 @ evs" "set (map_keys_used evs) \<subseteq> set keys"
         "chat_keys_used evs = []"
      by blast
    let ?evs = "[Call_generateContent key TEXT_MODEL prompt,
                 console_warn ''[MindMap AI] Key failed in Group B.'' err] @ evs"
    have "trace w' = trace w @ ?evs" using e(1) by simp
    moreover have "set (map_keys_used ?evs) \<subseteq> set (key # keys)" using e(2) by auto
    moreover have "chat_keys_used ?evs = []" using e(3) by simp
    ultimately show ?thesis by blast
  qed
qed

lemma getOrInitSession_initial_primary:
  "getOrInitSession env_primary_only initial_state =
     (chat_kp, \<lparr>currentChatSession = Some chat_kp, currentKeyIndexGroupA = 0\<rparr>)"
  by (simp add: getOrInitSession_def keys_env_primary_only js_index_def js_or_default_def
      createSession_def Let_def initial_state_def chat_kp_def)

lemma sample_run_primary:
  "sendMessageToGemini env_primary_only (sample_sdk 0 0 ''503'' False) ''oi'' None initial_state world0 =
     (''ok'',
      \<lparr>currentChatSession = Some (chat_kp\<lparr>history := talk\<rparr>), currentKeyIndexGroupA = 0\<rparr>,
      \<lparr>now = 1, trace = [Call_sendMessage chat_kp [TextPart ''oi'']]\<rparr>)"
proof -
  have s: "sendMessageToGemini_loop env_primary_only (sample_sdk 0 0 ''503'' False)
             [TextPart ''oi''] 0 initial_state world0 =
     (''ok'',
      \<lparr>currentChatSession = Some (chat_kp\<lparr>history := talk\<rparr>), currentKeyIndexGroupA = 0\<rparr>,
      \<lparr>now = 1, trace = [Call_sendMessage chat_kp [TextPart ''oi'']]\<rparr>)"
    using attempt_body_answer[OF getOrInitSession_initial_primary,
        of "sample_sdk 0 0 ''503'' False" world0 "[TextPart ''oi'']"
           "\<lparr>response_text = Some ''ok''\<rparr>" talk 0]
    by (simp add: sendMessageToGemini_loop.simps[of _ _ _ 0] keys_env_primary_only
        sample_sdk_def world0_def chat_kp_def talk_def js_or_default_def)
  then show ?thesis
    by (simp add: sendMessageToGemini_def keys_env_primary_only user_parts_def)
qed

lemma sample_map_primary:
  "generateMindMapText env_primary_only (sample_sdk 0 0 ''503'' False) ''foco'' initial_state world0 =
     (Some ''mapa'', initial_state,
      \<lparr>now = 1, trace = [Call_generateContent ''kp'' TEXT_MODEL (mindMapPrompt ''foco'')]\<rparr>)"
  by (simp add: generateMindMapText_def keys_env_primary_only generateContent_def
      sample_sdk_def world0_def emit_def js_or_def truthy_def)

lemma GROUP_A_KEYS_alt_nonempty: "s \<in> set (GROUP_A_KEYS_alt e) \<Longrightarrow> s \<noteq> []"
  unfolding GROUP_A_KEYS_alt_def by (rule filter_Boolean_nonempty)

lemma keys_alt_env_primary_only:
  "PRIMARY_KEY_alt env_primary_only = Some ''kp''"
  "GROUP_A_KEYS_alt env_primary_only = [''kp'']"
  "GROUP_B_KEYS_alt env_primary_only = [''kp'']"
  by (simp_all add: GROUP_A_KEYS_alt_def GROUP_B_KEYS_alt_def PRIMARY_KEY_alt_def
      getPrimaryApiKey_def env_lookup_def env_primary_only_def truthy_def)

lemma keys_alt_env_no_keys:
  "PRIMARY_KEY_alt env_no_keys = None"
  "GROUP_A_KEYS_alt env_no_keys = []"
  "GROUP_B_KEYS_alt env_no_keys = []"
  by (simp_all add: GROUP_A_KEYS_alt_def GROUP_B_KEYS_alt_def PRIMARY_KEY_alt_def
      getPrimaryApiKey_def env_lookup_def env_no_keys_def truthy_def)

lemma generateMindMapText_loop_result:
  "fst (generateMindMapText_loop k prompt keys w) = None \<or>
   (\<exists>t key resp. key \<in> set keys \<and>
      generateContent_outcome k t key TEXT_MODEL prompt = Inr resp \<and>
      response_text resp = fst (generateMindMapText_loop k prompt keys w))"
proof (induction keys arbitrary: w)
  case Nil
  then show ?case by simp
next
  case (Cons key keys)
  show ?case
  proof (cases "generateContent_outcome k (now w) key TEXT_MODEL prompt")
    case (Inr resp)
    then have "fst (generateMindMapText_loop k prompt (key # keys) w) =
                 js_or (response_text resp) None"
      by (simp add: generateContent_def)
    moreover have "js_or (response_text resp) None = None \<or>
                   js_or (response_text resp) None = response_text resp"
      by (simp add: js_or_def)
    ultimately show ?thesis using Inr by (metis list.set_intros(1))
  next
    case (Inl err)
    let ?w1 = "emit (console_warn ''[MindMap AI] Key failed in Group B.'' err)
                 (emit (Call_generateContent key TEXT_MODEL prompt) (w\<lparr>now := Suc (now w)\<rparr>))"
    have eq: "generateMindMapText_loop k prompt (key # keys) w =
          generateMindMapText_loop k prompt keys ?w1"
      using Inl by (simp add: generateContent_def)
    from Cons.IH[of ?w1] show ?thesis
      unfolding eq by (metis list.set_intros(2))
  qed
qed

lemma generateMindMapText_loop_all_fail:
  "\<forall>i<length keys. isl (generateContent_outcome k (now w + i) (keys ! i) TEXT_MODEL prompt) \<Longrightarrow>
   fst (generateMindMapText_loop k prompt keys w) = None"
proof (induction keys arbitrary: w)
  case Nil
  then show ?case by simp
next
  case (Cons key keys)
  from Cons.prems have "isl (generateContent_outcome k (now w) key TEXT_MODEL prompt)"
    by (auto dest: spec[of _ 0])
  then obtain err where f: "generateContent_outcome k (now w) key TEXT_MODEL prompt = Inl err"
    by (cases "generateContent_outcome k (now w) key TEXT_MODEL prompt") auto
  let ?w1 = "emit (console_warn ''[MindMap AI] Key failed in Group B.'' err)
               (emit (Call_generateContent key TEXT_MODEL prompt) (w\<lparr>now := Suc (now w)\<rparr>))"
  have eq: "generateMindMapText_loop k prompt (key # keys) w =
        generateMindMapText_loop k prompt keys ?w1"
    using f by (simp add: generateContent_def)
  have "\<forall>i<length keys. isl (generateContent_outcome k (now ?w1 + i) (keys ! i) TEXT_MODEL prompt)"
  proof (intro allI impI)
    fix i assume "i < length keys"
    then have "Suc i < length (key # keys)" by simp
    with Cons.prems
    have "isl (generateContent_outcome k (now w + Suc i) ((key # keys) ! Suc i) TEXT_MODEL prompt)"
      by blast
    then show "isl (generateContent_outcome k (now ?w1 + i) (keys ! i) TEXT_MODEL prompt)"
      by simp
  qed
  from Cons.IH[OF this] eq show ?case by simp
qed

lemma attempt_body_error_blind:
  assumes rel: "same_but_errors v w"
  shows "fst (attempt_body e (with_errors f k) ps a st v) = fst (attempt_body e k ps a st w) \<and>
         fst (snd (attempt_body e (with_errors f k) ps a st v)) =
           fst (snd (attempt_body e k ps a st w)) \<and>
         same_but_errors (snd (snd (attempt_body e (with_errors f k) ps a st v)))
           (snd (snd (attempt_body e k ps a st w)))"
proof -
  obtain c st1 where g: "getOrInitSession e st = (c, st1)"
    by (cases "getOrInitSession e st")
  obtain out h where s: "sendMessage_outcome k (now w) c ps = (out, h)"
    by (cases "sendMessage_outcome k (now w) c ps")
  have nv: "now v = now w" using rel by (simp add: same_but_errors_def)
  have tr: "map without_error (trace v) = map without_error (trace w)"
    using rel by (simp add: same_but_errors_def)
  show ?thesis
  proof (cases out)
    case (Inr resp)
    have s': "sendMessage_outcome (with_errors f k) (now v) c ps = (Inr resp, h)"
      using s Inr nv by (simp add: with_errors_def)
    from attempt_body_answer[OF g s', of a] attempt_body_answer[OF g, of k w ps resp h a]
      s Inr nv tr
    show ?thesis by (simp add: same_but_errors_def)
  next
    case (Inl err)
    have s': "sendMessage_outcome (with_errors f k) (now v) c ps = (Inl (f err), h)"
      using s Inl nv by (simp add: with_errors_def)
    have s0: "sendMessage_outcome k (now w) c ps = (Inl err, h)"
      using s Inl by simp
    show ?thesis
    proof (cases "a = length (GROUP_A_KEYS e) - 1")
      case True
      from attempt_body_last_failure[OF g s' True] attempt_body_last_failure[OF g s0 True] nv tr
      show ?thesis by (simp add: same_but_errors_def)
    next
      case False
      have gh: "getHistory_outcome (with_errors f k) (Suc (now v)) (c\<lparr>history := h\<rparr>) =
                map_option f (getHistory_outcome k (Suc (now w)) (c\<lparr>history := h\<rparr>))"
        using nv by (simp add: with_errors_def)
      from attempt_body_failure[OF g s' False] attempt_body_failure[OF g s0 False] nv tr gh
      show ?thesis
        by (cases "getHistory_outcome k (Suc (now w)) (c\<lparr>history := h\<rparr>)")
           (simp_all add: same_but_errors_def)
    qed
  qed
qed

lemma sendMessageToGemini_loop_error_blind:
  assumes "same_but_errors v w"
  shows "fst (sendMessageToGemini_loop e (with_errors f k) ps attempt st v) =
           fst (sendMessageToGemini_loop e k ps attempt st w) \<and>
         fst (snd (sendMessageToGemini_loop e (with_errors f k) ps attempt st v)) =
           fst (snd (sendMessageToGemini_loop e k ps attempt st w)) \<and>
         same_but_errors (snd (snd (sendMessageToGemini_loop e (with_errors f k) ps attempt st v)))
           (snd (snd (sendMessageToGemini_loop e k ps attempt st w)))"
  using assms
proof (induction "length (GROUP_A_KEYS e) - attempt" arbitrary: attempt st v w)
  case 0
  then show ?case
    by (simp add: sendMessageToGemini_loop.simps[of e _ ps attempt])
next
  case (Suc n)
  then have lt: "attempt < length (GROUP_A_KEYS e)" by simp
  obtain x st1 w1 where b: "attempt_body e k ps attempt st w = (x, st1, w1)"
    by (cases "attempt_body e k ps attempt st w")
  obtain x' st1' v1 where b': "attempt_body e (with_errors f k) ps attempt st v = (x', st1', v1)"
    by (cases "attempt_body e (with_errors f k) ps attempt st v")
  from attempt_body_error_blind[OF Suc.prems, of e f k ps attempt st] b b'
  have eq: "x' = x" "st1' = st1" and rel: "same_but_errors v1 w1"
    by simp_all
  show ?case
  proof (cases x)
    case (Some r)
    with b b' eq rel lt show ?thesis
      by (simp add: sendMessageToGemini_loop.simps[of e _ ps attempt])
  next
    case None
    have n: "n = length (GROUP_A_KEYS e) - Suc attempt" using Suc.hyps(2) by simp
    from Suc.hyps(1)[OF n rel, of st1] b b' eq None lt show ?thesis
      by (simp add: sendMessageToGemini_loop.simps[of e _ ps attempt])
  qed
qed

lemma sendMessageToGemini_alt_down:
  "fst (sendMessageToGemini_alt env_primary_only (sample_sdk_down failure False) ''oi'' None None world0)
     = fst (handle_failure_alt (JsError failure)
              \<lparr>now = 1, trace = [Call_sendMessage chat_kp [TextPart ''oi'']]\<rparr>)"
  by (simp add: sendMessageToGemini_alt_def keys_alt_env_primary_only truthy_def
      getOrInitSession_alt_def js_index_def Let_def sendMessage_def sample_sdk_down_def
      createSession_def chat_kp_def user_parts_def world0_def emit_def split: prod.splits)

text \<open>A failed pass of the loop, and the call as a run of the loop.\<close>

lemma sendMessageToGemini_is_loop:
  "GROUP_A_KEYS e \<noteq> [] \<Longrightarrow>
   sendMessageToGemini e k message imagePart st w =
     sendMessageToGemini_loop e k (user_parts message imagePart) 0 st w"
  by (simp add: sendMessageToGemini_def)

lemma sendMessageToGemini_loop_failed_pass:
  assumes more: "Suc attempt < length (GROUP_A_KEYS e)"
      and session: "getOrInitSession e st = (c, st1)"
      and failure: "sendMessage_outcome k (now w) c ps = (Inl err, h)"
  shows "sendMessageToGemini_loop e k ps attempt st w =
           sendMessageToGemini_loop e k ps (Suc attempt)
             \<lparr>currentChatSession =
                Some (createSession
                  (Some (GROUP_A_KEYS e !
                     ((currentKeyIndexGroupA st1 + 1) mod length (GROUP_A_KEYS e))))
                  (Some (case getHistory_outcome k (Suc (now w)) (c\<lparr>history := h\<rparr>) of
                           None \<Rightarrow> history (c\<lparr>history := h\<rparr>) | Some hError \<Rightarrow> []))),
              currentKeyIndexGroupA =
                (currentKeyIndexGroupA st1 + 1) mod length (GROUP_A_KEYS e)\<rparr>
             \<lparr>now = Suc (Suc (now w)),
              trace = trace w @
                [Call_sendMessage c ps,
                 console_warn (key_failed_msg (currentKeyIndexGroupA st1)) err,
                 Call_getHistory (c\<lparr>history := h\<rparr>)] @
                (case getHistory_outcome k (Suc (now w)) (c\<lparr>history := h\<rparr>) of
                   None \<Rightarrow> []
                 | Some hError \<Rightarrow>
                     [console_warn ''Could not retrieve history from failed session.'' hError]) @
                [console_log
                   (switching_msg
                      ((currentKeyIndexGroupA st1 + 1) mod length (GROUP_A_KEYS e)))]\<rparr>"
proof -
  have lt: "attempt < length (GROUP_A_KEYS e)" using more by simp
  have ne: "attempt \<noteq> length (GROUP_A_KEYS e) - 1" using more by auto
  have "0 < length (GROUP_A_KEYS e)" using more by linarith
  then have i: "(currentKeyIndexGroupA st1 + 1) mod length (GROUP_A_KEYS e) < length (GROUP_A_KEYS e)"
    by (rule mod_less_divisor)
  show ?thesis
    using attempt_body_failure[OF session failure ne] lt i
    by (cases "getHistory_outcome k (Suc (now w)) (c\<lparr>history := h\<rparr>)")
       (simp_all add: sendMessageToGemini_loop.simps[of e k ps attempt] js_index_def)
qed

lemma sendMessageToGemini_loop_last_failed_pass:
  assumes last: "Suc attempt = length (GROUP_A_KEYS e)"
      and session: "getOrInitSession e st = (c, st1)"
      and failure: "sendMessage_outcome k (now w) c ps = (Inl err, h)"
  shows "sendMessageToGemini_loop e k ps attempt st w =
           (MSG_CRITICAL,
            st1\<lparr>currentChatSession := Some (c\<lparr>history := h\<rparr>)\<rparr>,
            \<lparr>now = Suc (now w),
             trace = trace w @
               [Call_sendMessage c ps,
                console_warn (key_failed_msg (currentKeyIndexGroupA st1)) err,
                console_error ''[Mentor AI] All keys in Group A failed.'']\<rparr>)"
proof -
  have lt: "attempt < length (GROUP_A_KEYS e)" using last by simp
  have eq: "attempt = length (GROUP_A_KEYS e) - 1" using last by simp
  show ?thesis
    using attempt_body_last_failure[OF session failure eq] lt
    by (simp add: sendMessageToGemini_loop.simps[of e k ps attempt])
qed

lemma sendMessageToGemini_loop_sends_first:
  assumes lt: "attempt < length (GROUP_A_KEYS e)"
      and session: "getOrInitSession e st = (c, st1)"
  shows "\<exists>rest. trace (snd (snd (sendMessageToGemini_loop e k ps attempt st w))) =
           trace w @ Call_sendMessage c ps # rest"
proof -
  have keys: "GROUP_A_KEYS e \<noteq> []" using lt by auto
  obtain x st2 w2 where b: "attempt_body e k ps attempt st w = (x, st2, w2)"
    by (cases "attempt_body e k ps attempt st w")
  from attempt_body_sends_first[OF session, of k ps attempt w] b
  obtain rest1 where r1: "trace w2 = trace w @ Call_sendMessage c ps # rest1"
    by auto
  show ?thesis
  proof (cases x)
    case (Some r)
    with b lt r1 show ?thesis
      by (simp add: sendMessageToGemini_loop.simps[of e k ps attempt])
  next
    case None
    with attempt_body_main[OF keys b] lt have more: "Suc attempt < length (GROUP_A_KEYS e)"
      by auto
    obtain r st' w' where l: "sendMessageToGemini_loop e k ps (Suc attempt) st2 w2 = (r, st', w')"
      by (cases "sendMessageToGemini_loop e k ps (Suc attempt) st2 w2")
    from sendMessageToGemini_loop_main[OF more l] obtain evs where "trace w' = trace w2 @ evs"
      by blast
    with r1 have "trace w' = trace w @ Call_sendMessage c ps # (rest1 @ evs)" by simp
    with b None lt l show ?thesis
      by (simp add: sendMessageToGemini_loop.simps[of e k ps attempt])
  qed
qed

lemma sendMessageToGemini_loop_retry:
  assumes more: "Suc attempt < length (GROUP_A_KEYS e)"
  shows "\<exists>rest. trace (snd (snd (sendMessageToGemini_loop e k ps (Suc attempt)
                     \<lparr>currentChatSession = Some c, currentKeyIndexGroupA = i\<rparr> w))) =
           trace w @ Call_sendMessage c ps # rest"
  by (rule sendMessageToGemini_loop_sends_first[OF more])
     (simp add: getOrInitSession_Some)


lemma getOrInitSession_st_k2: "getOrInitSession env_two_keys st_k2 = (chat_k2, st_k2)"
  by (simp add: getOrInitSession_def st_k2_def)

section \<open>Properties\<close>

text \<open>
  C8. With no Group A key configured, \<open>sendMessageToGemini\<close> returns the configuration
  error message at once: no SDK call is made and nothing is printed (the world is the
  one it was given), and both module variables keep their values.
\<close>

theorem sendMessageToGemini_no_keys:
  "GROUP_A_KEYS e = [] \<Longrightarrow> sendMessageToGemini e k message imagePart st w = (MSG_CONFIG, st, w)"
  by (simp add: sendMessageToGemini_def)

theorem sendMessageToGemini_no_keys_witness:
  "GROUP_A_KEYS env_no_keys = [] \<and>
   sendMessageToGemini env_no_keys (sample_sdk 0 0 [] False) ''oi'' None initial_state world0
     = (MSG_CONFIG, initial_state, world0)"
  using sendMessageToGemini_no_keys[of env_no_keys "sample_sdk 0 0 [] False" "''oi''" None initial_state world0]
  by (simp add: keys_env_no_keys)

text \<open>
  C2. A call of \<open>sendMessageToGemini\<close> returns (the loop is a total function, its
  measure the number of keys left to try), the events it adds to the trace hold at most
  \<open>GROUP_A_KEYS.length\<close> sends, which is at most the three configured entries, and
  what it returns is the text of an answer of the service or one of the module's fixed
  error messages. The message after the loop, \<open>MSG_UNKNOWN\<close>, is never returned.
\<close>

theorem sendMessageToGemini_bounded:
  assumes "sendMessageToGemini e k message imagePart st w = (r, st', w')"
  shows "(\<exists>evs. trace w' = trace w @ evs \<and> send_attempts evs \<le> length (GROUP_A_KEYS e)) \<and>
         length (GROUP_A_KEYS e) \<le> 3 \<and>
         (r = MSG_CONFIG \<or> r = MSG_CRITICAL \<or> r = MSG_NO_RESPONSE \<or>
          answer_of k (user_parts message imagePart) r)"
proof (cases "GROUP_A_KEYS e = []")
  case True
  with assms have "w' = w" "r = MSG_CONFIG"
    by (simp_all add: sendMessageToGemini_def)
  then show ?thesis using GROUP_A_KEYS_length[of e] by simp
next
  case False
  then have pos: "0 < length (GROUP_A_KEYS e)" by simp
  from assms False
  have l: "sendMessageToGemini_loop e k (user_parts message imagePart) 0 st w = (r, st', w')"
    by (simp add: sendMessageToGemini_def)
  from sendMessageToGemini_loop_main[OF pos l] GROUP_A_KEYS_length[of e]
  show ?thesis by auto
qed

theorem sendMessageToGemini_bounded_witness:
  "sendMessageToGemini env_two_keys (sample_sdk 0 1 ''503'' False) ''oi'' None initial_state world0 =
     (''ok'',
      \<lparr>currentChatSession = Some (chat_k2\<lparr>history :=
          [\<lparr>content_role = ''user'', content_parts = [TextPart ''oi'']\<rparr>,
           \<lparr>content_role = ''model'', content_parts = [TextPart ''ok'']\<rparr>]\<rparr>),
       currentKeyIndexGroupA = 1\<rparr>,
      \<lparr>now = 3,
       trace = [Call_sendMessage chat_k1 [TextPart ''oi''],
                console_warn (key_failed_msg 0) (JsError ''503''),
                Call_getHistory chat_k1,
                console_log (switching_msg 1),
                Call_sendMessage chat_k2 [TextPart ''oi'']]\<rparr>) \<and>
   (\<exists>evs. [Call_sendMessage chat_k1 [TextPart ''oi''],
                console_warn (key_failed_msg 0) (JsError ''503''),
                Call_getHistory chat_k1,
                console_log (switching_msg 1),
                Call_sendMessage chat_k2 [TextPart ''oi'']] = trace world0 @ evs \<and>
       send_attempts evs \<le> length (GROUP_A_KEYS env_two_keys)) \<and>
   length (GROUP_A_KEYS env_two_keys) \<le> 3 \<and>
   (''ok'' = MSG_CONFIG \<or> ''ok'' = MSG_CRITICAL \<or> ''ok'' = MSG_NO_RESPONSE \<or>
    answer_of (sample_sdk 0 1 ''503'' False) (user_parts ''oi'' None) ''ok'')"
  using sendMessageToGemini_bounded[OF sample_run_second_key] sample_run_second_key
  by simp

text \<open>
  C1. A call of \<open>sendMessageToGemini\<close> with at least one Group A key, and a pass of
  its loop whose send throws (\<open>session\<close> is the session the pass sends on,
  \<open>failed\<close> that session as the call left it). While another key remains the pass
  prints the warning naming the key, calls \<open>getHistory\<close> on the failed session,
  moves the key index to the next position modulo the number of keys, puts in the slot a
  session created with the key at that position and with the recovered transcript (the
  empty one, and a second warning, when \<open>getHistory\<close> throws), prints the
  switching message, and the loop goes on with the next pass, which sends the same parts
  on the new session. On the last pass it prints the warning and the error and returns
  \<open>MSG_CRITICAL\<close>. The first pass of a call is stated on \<open>sendMessageToGemini\<close>
  itself, with the exact events it adds to the trace. When every send throws, the call
  returns \<open>MSG_CRITICAL\<close>: the result is always a string, nothing is thrown to the
  caller.
\<close>

theorem sendMessageToGemini_fallback:
  fixes e :: environ and k :: sdk and message :: string and imagePart :: "inlineData option"
    and st st1 st0 :: module_state and w w0 :: world and attempt :: nat
    and session :: chat and err :: jserror and h :: "content list"
  defines "ps \<equiv> user_parts message imagePart"
      and "n \<equiv> length (GROUP_A_KEYS e)"
      and "failed \<equiv> session\<lparr>history := h\<rparr>"
      and "i \<equiv> (currentKeyIndexGroupA st1 + 1) mod length (GROUP_A_KEYS e)"
      and "recovered \<equiv>
             (case getHistory_outcome k (Suc (now w)) (session\<lparr>history := h\<rparr>) of
                None \<Rightarrow> history (session\<lparr>history := h\<rparr>) | Some hError \<Rightarrow> [])"
      and "pass \<equiv>
             [Call_sendMessage session (user_parts message imagePart),
              console_warn (key_failed_msg (currentKeyIndexGroupA st1)) err,
              Call_getHistory (session\<lparr>history := h\<rparr>)] @
             (case getHistory_outcome k (Suc (now w)) (session\<lparr>history := h\<rparr>) of
                None \<Rightarrow> []
              | Some hError \<Rightarrow>
                  [console_warn ''Could not retrieve history from failed session.'' hError]) @
             [console_log
                (switching_msg
                   ((currentKeyIndexGroupA st1 + 1) mod length (GROUP_A_KEYS e)))]"
      and "last_pass \<equiv>
             [Call_sendMessage session (user_parts message imagePart),
              console_warn (key_failed_msg (currentKeyIndexGroupA st1)) err,
              console_error ''[Mentor AI] All keys in Group A failed.'']"
  assumes attempt: "attempt < n"
      and session: "getOrInitSession e st = (session, st1)"
      and failure: "sendMessage_outcome k (now w) session ps = (Inl err, h)"
  shows "(if Suc attempt < n
          then sendMessageToGemini_loop e k ps attempt st w =
                 sendMessageToGemini_loop e k ps (Suc attempt)
                   \<lparr>currentChatSession =
                      Some (createSession (Some (GROUP_A_KEYS e ! i)) (Some recovered)),
                    currentKeyIndexGroupA = i\<rparr>
                   \<lparr>now = Suc (Suc (now w)), trace = trace w @ pass\<rparr> \<and>
               (\<exists>rest. trace (snd (snd (sendMessageToGemini_loop e k ps attempt st w))) =
                  trace w @ pass @
                  Call_sendMessage (createSession (Some (GROUP_A_KEYS e ! i)) (Some recovered)) ps
                    # rest)
          else sendMessageToGemini_loop e k ps attempt st w =
                 (MSG_CRITICAL, st1\<lparr>currentChatSession := Some failed\<rparr>,
                  \<lparr>now = Suc (now w), trace = trace w @ last_pass\<rparr>)) \<and>
         (if Suc 0 < n
          then sendMessageToGemini e k message imagePart st w =
                 sendMessageToGemini_loop e k ps (Suc 0)
                   \<lparr>currentChatSession =
                      Some (createSession (Some (GROUP_A_KEYS e ! i)) (Some recovered)),
                    currentKeyIndexGroupA = i\<rparr>
                   \<lparr>now = Suc (Suc (now w)), trace = trace w @ pass\<rparr> \<and>
               (\<exists>rest. trace (snd (snd (sendMessageToGemini e k message imagePart st w))) =
                  trace w @ pass @
                  Call_sendMessage (createSession (Some (GROUP_A_KEYS e ! i)) (Some recovered)) ps
                    # rest)
          else sendMessageToGemini e k message imagePart st w =
                 (MSG_CRITICAL, st1\<lparr>currentChatSession := Some failed\<rparr>,
                  \<lparr>now = Suc (now w), trace = trace w @ last_pass\<rparr>)) \<and>
         ((\<forall>t c. isl (fst (sendMessage_outcome k t c ps))) \<longrightarrow>
            fst (sendMessageToGemini e k message imagePart st0 w0) = MSG_CRITICAL)"
proof -
  have pos: "0 < length (GROUP_A_KEYS e)" using attempt unfolding n_def by linarith
  then have keys: "GROUP_A_KEYS e \<noteq> []" by simp
  have call': "sendMessageToGemini e k message imagePart st w =
               sendMessageToGemini_loop e k ps 0 st w"
    unfolding ps_def by (rule sendMessageToGemini_is_loop[OF keys])
  have f: "sendMessage_outcome k (now w) session (user_parts message imagePart) = (Inl err, h)"
    using failure unfolding ps_def .
  have pass_at: "sendMessageToGemini_loop e k ps a st w =
                 sendMessageToGemini_loop e k ps (Suc a)
                   \<lparr>currentChatSession =
                      Some (createSession (Some (GROUP_A_KEYS e ! i)) (Some recovered)),
                    currentKeyIndexGroupA = i\<rparr>
                   \<lparr>now = Suc (Suc (now w)), trace = trace w @ pass\<rparr> \<and>
               (\<exists>rest. trace (snd (snd (sendMessageToGemini_loop e k ps a st w))) =
                  trace w @ pass @
                  Call_sendMessage (createSession (Some (GROUP_A_KEYS e ! i)) (Some recovered)) ps
                    # rest)"
    if more: "Suc a < n" for a
  proof -
    have m: "Suc a < length (GROUP_A_KEYS e)" using more unfolding n_def .
    have eq: "sendMessageToGemini_loop e k ps a st w =
                 sendMessageToGemini_loop e k ps (Suc a)
                   \<lparr>currentChatSession =
                      Some (createSession (Some (GROUP_A_KEYS e ! i)) (Some recovered)),
                    currentKeyIndexGroupA = i\<rparr>
                   \<lparr>now = Suc (Suc (now w)), trace = trace w @ pass\<rparr>"
      unfolding ps_def i_def recovered_def pass_def
      by (rule sendMessageToGemini_loop_failed_pass[OF m session f])
    from sendMessageToGemini_loop_retry[OF m, of k ps
        "createSession (Some (GROUP_A_KEYS e ! i)) (Some recovered)" i
        "\<lparr>now = Suc (Suc (now w)), trace = trace w @ pass\<rparr>"]
    have "\<exists>rest. trace (snd (snd (sendMessageToGemini_loop e k ps a st w))) =
                  trace w @ pass @
                  Call_sendMessage (createSession (Some (GROUP_A_KEYS e ! i)) (Some recovered)) ps
                    # rest"
      unfolding eq by simp
    with eq show ?thesis by simp
  qed
  have last_at: "sendMessageToGemini_loop e k ps a st w =
                 (MSG_CRITICAL, st1\<lparr>currentChatSession := Some failed\<rparr>,
                  \<lparr>now = Suc (now w), trace = trace w @ last_pass\<rparr>)"
    if last: "Suc a = n" for a
    unfolding ps_def failed_def last_pass_def
    by (rule sendMessageToGemini_loop_last_failed_pass[OF last[unfolded n_def] session f])
  have a: "if Suc attempt < n
          then sendMessageToGemini_loop e k ps attempt st w =
                 sendMessageToGemini_loop e k ps (Suc attempt)
                   \<lparr>currentChatSession =
                      Some (createSession (Some (GROUP_A_KEYS e ! i)) (Some recovered)),
                    currentKeyIndexGroupA = i\<rparr>
                   \<lparr>now = Suc (Suc (now w)), trace = trace w @ pass\<rparr> \<and>
               (\<exists>rest. trace (snd (snd (sendMessageToGemini_loop e k ps attempt st w))) =
                  trace w @ pass @
                  Call_sendMessage (createSession (Some (GROUP_A_KEYS e ! i)) (Some recovered)) ps
                    # rest)
          else sendMessageToGemini_loop e k ps attempt st w =
                 (MSG_CRITICAL, st1\<lparr>currentChatSession := Some failed\<rparr>,
                  \<lparr>now = Suc (now w), trace = trace w @ last_pass\<rparr>)"
  proof (cases "Suc attempt < n")
    case True
    show ?thesis unfolding if_P[OF True] by (rule pass_at[OF True])
  next
    case False
    with attempt have "Suc attempt = n" by simp
    then show ?thesis unfolding if_not_P[OF False] by (rule last_at)
  qed
  have b: "if Suc 0 < n
          then sendMessageToGemini e k message imagePart st w =
                 sendMessageToGemini_loop e k ps (Suc 0)
                   \<lparr>currentChatSession =
                      Some (createSession (Some (GROUP_A_KEYS e ! i)) (Some recovered)),
                    currentKeyIndexGroupA = i\<rparr>
                   \<lparr>now = Suc (Suc (now w)), trace = trace w @ pass\<rparr> \<and>
               (\<exists>rest. trace (snd (snd (sendMessageToGemini e k message imagePart st w))) =
                  trace w @ pass @
                  Call_sendMessage (createSession (Some (GROUP_A_KEYS e ! i)) (Some recovered)) ps
                    # rest)
          else sendMessageToGemini e k message imagePart st w =
                 (MSG_CRITICAL, st1\<lparr>currentChatSession := Some failed\<rparr>,
                  \<lparr>now = Suc (now w), trace = trace w @ last_pass\<rparr>)"
  proof (cases "Suc 0 < n")
    case True
    show ?thesis unfolding if_P[OF True] call' by (rule pass_at[OF True])
  next
    case False
    with pos have "Suc 0 = n" unfolding n_def by linarith
    then show ?thesis unfolding if_not_P[OF False] call' by (rule last_at)
  qed
  have c: "(\<forall>t c. isl (fst (sendMessage_outcome k t c ps))) \<longrightarrow>
            fst (sendMessageToGemini e k message imagePart st0 w0) = MSG_CRITICAL"
    using sendMessageToGemini_loop_all_fail[of k ps 0 e st0 w0] pos
    by (simp add: sendMessageToGemini_is_loop[OF keys] ps_def)
  show ?thesis by (rule conjI[OF a conjI[OF b c]])
qed


theorem sendMessageToGemini_fallback_witness:
  "0 < length (GROUP_A_KEYS env_two_keys) \<and>
   getOrInitSession env_two_keys initial_state = (chat_k1, st_k1) \<and>
   sendMessage_outcome (sample_sdk_down ''503'' False) (now world0) chat_k1 (user_parts ''oi'' None)
     = (Inl (JsError ''503''), []) \<and>
   sendMessageToGemini env_two_keys (sample_sdk_down ''503'' False) ''oi'' None initial_state world0
     = sendMessageToGemini_loop env_two_keys (sample_sdk_down ''503'' False) (user_parts ''oi'' None)
         (Suc 0) st_k2 w_first_failed \<and>
   Suc 0 < length (GROUP_A_KEYS env_two_keys) \<and>
   getOrInitSession env_two_keys st_k2 = (chat_k2, st_k2) \<and>
   sendMessage_outcome (sample_sdk_down ''503'' False) (now w_first_failed) chat_k2
       (user_parts ''oi'' None)
     = (Inl (JsError ''503''), []) \<and>
   sendMessageToGemini_loop env_two_keys (sample_sdk_down ''503'' False) (user_parts ''oi'' None)
       (Suc 0) st_k2 w_first_failed
     = (MSG_CRITICAL, st_k2, w_all_failed) \<and>
   sendMessageToGemini env_two_keys (sample_sdk_down ''503'' False) ''oi'' None initial_state world0
     = (MSG_CRITICAL, st_k2, w_all_failed)"
proof -
  let ?k = "sample_sdk_down ''503'' False"
  have h1: "0 < length (GROUP_A_KEYS env_two_keys)"
    by (simp add: keys_env_two_keys)
  have h2: "Suc 0 < length (GROUP_A_KEYS env_two_keys)"
    by (simp add: keys_env_two_keys)
  have f1: "sendMessage_outcome ?k (now world0) chat_k1 (user_parts ''oi'' None)
     = (Inl (JsError ''503''), [])"
    by (simp add: sample_sdk_down_def chat_k1_def)
  have f2: "sendMessage_outcome ?k (now w_first_failed) chat_k2 (user_parts ''oi'' None)
     = (Inl (JsError ''503''), [])"
    by (simp add: sample_sdk_down_def chat_k2_def)
  have h3: "\<not> Suc (Suc 0) < length (GROUP_A_KEYS env_two_keys)"
    by (simp add: keys_env_two_keys)
  note t1 = sendMessageToGemini_fallback[OF h1 getOrInitSession_initial_two_keys f1,
      THEN conjunct2, THEN conjunct1, unfolded if_P[OF h2], THEN conjunct1]
  note t2 = sendMessageToGemini_fallback[OF h2 getOrInitSession_st_k2 f2, THEN conjunct1,
      unfolded if_not_P[OF h3]]
  from t1 have a: "sendMessageToGemini env_two_keys ?k ''oi'' None initial_state world0
     = sendMessageToGemini_loop env_two_keys ?k (user_parts ''oi'' None) (Suc 0) st_k2 w_first_failed"
    by (simp add: keys_env_two_keys sample_sdk_down_def world0_def st_k1_def st_k2_def
        chat_k1_def chat_k2_def createSession_def w_first_failed_def user_parts_def
        numeral_2_eq_2)
  from t2 have b: "sendMessageToGemini_loop env_two_keys ?k (user_parts ''oi'' None)
       (Suc 0) st_k2 w_first_failed = (MSG_CRITICAL, st_k2, w_all_failed)"
    by (simp add: keys_env_two_keys st_k2_def chat_k2_def w_first_failed_def w_all_failed_def
        user_parts_def numeral_2_eq_2 numeral_3_eq_3)
  from a b have c: "sendMessageToGemini env_two_keys ?k ''oi'' None initial_state world0
     = (MSG_CRITICAL, st_k2, w_all_failed)"
    by (rule trans)
  show ?thesis
    using h1 getOrInitSession_initial_two_keys f1 a h2 getOrInitSession_st_k2 f2 b c
    by (intro conjI)
qed


text \<open>
  C3, as the code has it. When a send throws and another key remains, the session put
  in the slot is created with the next key and with the transcript \<open>getHistory\<close>
  returned for the failed session, or with the empty transcript when \<open>getHistory\<close>
  itself throws, in which case the warning that the history could not be retrieved is
  printed between the call of \<open>getHistory\<close> and the switching message. The loop
  goes on with the next pass, whose first event is the send of the same parts on that
  session. Stated for any pass of the loop and, for the first pass, on
  \<open>sendMessageToGemini\<close> itself.
\<close>

theorem replacement_session_transcript:
  fixes e :: environ and k :: sdk and message :: string and imagePart :: "inlineData option"
    and st st1 :: module_state and w :: world and attempt :: nat
    and session :: chat and err :: jserror and h :: "content list"
  defines "ps \<equiv> user_parts message imagePart"
      and "failed \<equiv> session\<lparr>history := h\<rparr>"
      and "i \<equiv> (currentKeyIndexGroupA st1 + 1) mod length (GROUP_A_KEYS e)"
      and "recovered \<equiv>
             (case getHistory_outcome k (Suc (now w)) (session\<lparr>history := h\<rparr>) of
                None \<Rightarrow> history (session\<lparr>history := h\<rparr>) | Some hError \<Rightarrow> [])"
      and "replacement \<equiv>
             createSession
               (Some (GROUP_A_KEYS e !
                  ((currentKeyIndexGroupA st1 + 1) mod length (GROUP_A_KEYS e))))
               (Some (case getHistory_outcome k (Suc (now w)) (session\<lparr>history := h\<rparr>) of
                        None \<Rightarrow> history (session\<lparr>history := h\<rparr>) | Some hError \<Rightarrow> []))"
      and "pass \<equiv>
             [Call_sendMessage session (user_parts message imagePart),
              console_warn (key_failed_msg (currentKeyIndexGroupA st1)) err,
              Call_getHistory (session\<lparr>history := h\<rparr>)] @
             (case getHistory_outcome k (Suc (now w)) (session\<lparr>history := h\<rparr>) of
                None \<Rightarrow> []
              | Some hError \<Rightarrow>
                  [console_warn ''Could not retrieve history from failed session.'' hError]) @
             [console_log
                (switching_msg
                   ((currentKeyIndexGroupA st1 + 1) mod length (GROUP_A_KEYS e)))]"
  assumes more: "Suc attempt < length (GROUP_A_KEYS e)"
      and session: "getOrInitSession e st = (session, st1)"
      and failure: "sendMessage_outcome k (now w) session ps = (Inl err, h)"
  shows "apiKey replacement = Some (GROUP_A_KEYS e ! i) \<and>
         history replacement = recovered \<and>
         sendMessageToGemini_loop e k ps attempt st w =
           sendMessageToGemini_loop e k ps (Suc attempt)
             \<lparr>currentChatSession = Some replacement, currentKeyIndexGroupA = i\<rparr>
             \<lparr>now = Suc (Suc (now w)), trace = trace w @ pass\<rparr> \<and>
         (\<exists>rest. trace (snd (snd (sendMessageToGemini_loop e k ps attempt st w))) =
            trace w @ pass @ Call_sendMessage replacement ps # rest) \<and>
         sendMessageToGemini e k message imagePart st w =
           sendMessageToGemini_loop e k ps (Suc 0)
             \<lparr>currentChatSession = Some replacement, currentKeyIndexGroupA = i\<rparr>
             \<lparr>now = Suc (Suc (now w)), trace = trace w @ pass\<rparr> \<and>
         (\<exists>rest. trace (snd (snd (sendMessageToGemini e k message imagePart st w))) =
            trace w @ pass @ Call_sendMessage replacement ps # rest)"
proof -
  have keys: "GROUP_A_KEYS e \<noteq> []" using more by auto
  have first: "Suc 0 < length (GROUP_A_KEYS e)" using more by linarith
  have call: "sendMessageToGemini e k message imagePart st w =
              sendMessageToGemini_loop e k ps 0 st w"
    unfolding ps_def by (rule sendMessageToGemini_is_loop[OF keys])
  have f: "sendMessage_outcome k (now w) session (user_parts message imagePart) = (Inl err, h)"
    using failure unfolding ps_def .
  have pass_at: "sendMessageToGemini_loop e k ps a st w =
           sendMessageToGemini_loop e k ps (Suc a)
             \<lparr>currentChatSession = Some replacement, currentKeyIndexGroupA = i\<rparr>
             \<lparr>now = Suc (Suc (now w)), trace = trace w @ pass\<rparr>"
    if m: "Suc a < length (GROUP_A_KEYS e)" for a
    unfolding ps_def i_def replacement_def pass_def
    by (rule sendMessageToGemini_loop_failed_pass[OF m session f])
  have retry_at: "\<exists>rest. trace (snd (snd (sendMessageToGemini_loop e k ps a st w))) =
            trace w @ pass @ Call_sendMessage replacement ps # rest"
    if m: "Suc a < length (GROUP_A_KEYS e)" for a
  proof -
    from sendMessageToGemini_loop_retry[OF m, of k ps replacement i
        "\<lparr>now = Suc (Suc (now w)), trace = trace w @ pass\<rparr>"]
    show ?thesis unfolding pass_at[OF m] by simp
  qed
  have a: "apiKey replacement = Some (GROUP_A_KEYS e ! i)"
    unfolding replacement_def i_def by simp
  have b: "history replacement = recovered"
    unfolding replacement_def recovered_def by simp
  note c = pass_at[OF more]
  note d = retry_at[OF more]
  have e: "sendMessageToGemini e k message imagePart st w =
           sendMessageToGemini_loop e k ps (Suc 0)
             \<lparr>currentChatSession = Some replacement, currentKeyIndexGroupA = i\<rparr>
             \<lparr>now = Suc (Suc (now w)), trace = trace w @ pass\<rparr>"
    unfolding call by (rule pass_at[OF first])
  have f: "\<exists>rest. trace (snd (snd (sendMessageToGemini e k message imagePart st w))) =
            trace w @ pass @ Call_sendMessage replacement ps # rest"
    unfolding call by (rule retry_at[OF first])
  show ?thesis
    by (rule conjI[OF a conjI[OF b conjI[OF c conjI[OF d conjI[OF e f]]]]])
qed

theorem replacement_session_transcript_witness:
  "Suc 0 < length (GROUP_A_KEYS env_two_keys) \<and>
   getOrInitSession env_two_keys st_talked = (chat_talked, st_talked) \<and>
   sendMessage_outcome (sample_sdk 1 10 ''503'' False) (now w_talked) chat_talked
       (user_parts ''e agora'' None) = (Inl (JsError ''503''), talk) \<and>
   history (createSession (Some ''k2'') (Some talk)) = history chat_talked \<and>
   sendMessageToGemini env_two_keys (sample_sdk 1 10 ''503'' False) ''e agora'' None
       st_talked w_talked =
     sendMessageToGemini_loop env_two_keys (sample_sdk 1 10 ''503'' False)
       (user_parts ''e agora'' None) (Suc 0)
       \<lparr>currentChatSession = Some (createSession (Some ''k2'') (Some talk)),
        currentKeyIndexGroupA = 1\<rparr>
       w_talked_failed \<and>
   (\<exists>rest. trace (snd (snd (sendMessageToGemini env_two_keys (sample_sdk 1 10 ''503'' False)
                               ''e agora'' None st_talked w_talked))) =
      trace w_talked_failed @
      Call_sendMessage (createSession (Some ''k2'') (Some talk)) [TextPart ''e agora''] # rest)"
proof -
  let ?k = "sample_sdk 1 10 ''503'' False"
  have h1: "Suc 0 < length (GROUP_A_KEYS env_two_keys)"
    by (simp add: keys_env_two_keys)
  have f1: "sendMessage_outcome ?k (now w_talked) chat_talked (user_parts ''e agora'' None)
              = (Inl (JsError ''503''), talk)"
    by (simp add: sample_sdk_def w_talked_def chat_talked_def)
  note t = replacement_session_transcript[OF h1 getOrInitSession_talked f1]
  from t have b: "history (createSession (Some ''k2'') (Some talk)) = history chat_talked"
    by (simp add: chat_talked_def)
  from t[THEN conjunct2, THEN conjunct2, THEN conjunct2, THEN conjunct2, THEN conjunct1]
  have e: "sendMessageToGemini env_two_keys ?k ''e agora'' None st_talked w_talked =
     sendMessageToGemini_loop env_two_keys ?k (user_parts ''e agora'' None) (Suc 0)
       \<lparr>currentChatSession = Some (createSession (Some ''k2'') (Some talk)),
        currentKeyIndexGroupA = 1\<rparr>
       w_talked_failed"
    by (simp add: keys_env_two_keys sample_sdk_def w_talked_def st_talked_def chat_talked_def
        w_talked_failed_def user_parts_def numeral_2_eq_2 numeral_3_eq_3)
  from t[THEN conjunct2, THEN conjunct2, THEN conjunct2, THEN conjunct2, THEN conjunct2]
  have f: "\<exists>rest. trace (snd (snd (sendMessageToGemini env_two_keys ?k
                               ''e agora'' None st_talked w_talked))) =
      trace w_talked_failed @
      Call_sendMessage (createSession (Some ''k2'') (Some talk)) [TextPart ''e agora''] # rest"
    by (simp add: keys_env_two_keys sample_sdk_def w_talked_def st_talked_def chat_talked_def
        w_talked_failed_def user_parts_def)
  show ?thesis
    using h1 getOrInitSession_talked f1 b e f by (intro conjI)
qed

text \<open>
  C3, as stated, fails when \<open>getHistory\<close> throws. After one answered message the
  session on the first key holds a transcript of two entries. The service then goes down
  and \<open>getHistory\<close> throws: the next call of \<open>sendMessageToGemini\<close> prints the
  warning, retries on a session on the second key whose transcript is empty, and leaves
  that session in the slot.
\<close>

theorem replacement_session_transcript_lost:
  "sendMessageToGemini env_two_keys (sample_sdk 1 10 ''503'' True) ''oi'' None initial_state world0 =
     (''ok'', st_talked, w_talked) \<and>
   currentChatSession st_talked = Some chat_talked \<and>
   history chat_talked = talk \<and> talk \<noteq> [] \<and>
   Suc 0 < length (GROUP_A_KEYS env_two_keys) \<and>
   sendMessageToGemini env_two_keys (sample_sdk 1 10 ''503'' True) ''e agora'' None
       st_talked w_talked =
     (MSG_CRITICAL, st_k2, w_talk_lost) \<and>
   currentChatSession st_k2 = Some chat_k2 \<and>
   history chat_k2 = []"
proof -
  let ?k = "sample_sdk 1 10 ''503'' True"
  let ?ps = "user_parts ''e agora'' None"
  let ?w1 = "\<lparr>now = 3,
      trace = [Call_sendMessage chat_k1 [TextPart ''oi''],
               Call_sendMessage chat_talked [TextPart ''e agora''],
               console_warn (key_failed_msg 0) (JsError ''503''),
               Call_getHistory chat_talked,
               console_warn ''Could not retrieve history from failed session.''
                 (JsError ''history unavailable''),
               console_log (switching_msg 1)]\<rparr>"
  have h1: "Suc 0 < length (GROUP_A_KEYS env_two_keys)"
    by (simp add: keys_env_two_keys)
  have h2: "Suc (Suc 0) = length (GROUP_A_KEYS env_two_keys)"
    by (simp add: keys_env_two_keys)
  have keys: "GROUP_A_KEYS env_two_keys \<noteq> []"
    by (simp add: keys_env_two_keys)
  have f1: "sendMessage_outcome ?k (now w_talked) chat_talked ?ps = (Inl (JsError ''503''), talk)"
    by (simp add: sample_sdk_def w_talked_def chat_talked_def)
  have f2: "sendMessage_outcome ?k (now ?w1) chat_k2 ?ps = (Inl (JsError ''503''), [])"
    by (simp add: sample_sdk_def chat_k2_def)
  have p1: "sendMessageToGemini_loop env_two_keys ?k ?ps 0 st_talked w_talked =
            sendMessageToGemini_loop env_two_keys ?k ?ps (Suc 0) st_k2 ?w1"
    using sendMessageToGemini_loop_failed_pass[OF h1 getOrInitSession_talked f1]
    by (simp add: keys_env_two_keys sample_sdk_def w_talked_def st_talked_def chat_talked_def
        st_k2_def chat_k2_def createSession_def user_parts_def numeral_2_eq_2 numeral_3_eq_3)
  have p2: "sendMessageToGemini_loop env_two_keys ?k ?ps (Suc 0) st_k2 ?w1 =
            (MSG_CRITICAL, st_k2, w_talk_lost)"
    using sendMessageToGemini_loop_last_failed_pass[OF h2 getOrInitSession_st_k2 f2]
    by (simp add: st_k2_def chat_k2_def w_talk_lost_def user_parts_def
        numeral_2_eq_2 numeral_3_eq_3)
  have a: "sendMessageToGemini env_two_keys ?k ''e agora'' None st_talked w_talked =
             (MSG_CRITICAL, st_k2, w_talk_lost)"
    unfolding sendMessageToGemini_is_loop[OF keys] p1 by (rule p2)
  have b: "currentChatSession st_talked = Some chat_talked"
    by (simp add: st_talked_def)
  have c: "history chat_talked = talk" by (simp add: chat_talked_def)
  have d: "talk \<noteq> []" by (simp add: talk_def)
  have e: "currentChatSession st_k2 = Some chat_k2" by (simp add: st_k2_def)
  have f: "history chat_k2 = []" by (simp add: chat_k2_def)
  show ?thesis
    using sample_run_first_key[of True] b c d h1 a e f by (intro conjI)
qed

text \<open>
  C9. With at least one Group A key, in every state the module can reach the key index
  is below the number of keys, so \<open>GROUP_A_KEYS[currentKeyIndexGroupA]\<close> is a key
  and not \<open>undefined\<close>. The index changes in two places only:
  \<open>getOrInitSession\<close> keeps it or sets it to 0, and a pass of the loop keeps what
  \<open>getOrInitSession\<close> left or moves it one position on, modulo the number of keys.
\<close>

theorem key_index_in_range:
  assumes "GROUP_A_KEYS e \<noteq> []" and "reachable e st"
  shows "currentKeyIndexGroupA st < length (GROUP_A_KEYS e) \<and>
         js_index (GROUP_A_KEYS e) (currentKeyIndexGroupA st) =
           Some (GROUP_A_KEYS e ! currentKeyIndexGroupA st) \<and>
         currentKeyIndexGroupA (snd (getOrInitSession e st)) \<in> {currentKeyIndexGroupA st, 0} \<and>
         currentKeyIndexGroupA (fst (snd (attempt_body e k ps a st w))) \<in>
           {currentKeyIndexGroupA (snd (getOrInitSession e st)),
            (currentKeyIndexGroupA (snd (getOrInitSession e st)) + 1) mod length (GROUP_A_KEYS e)}"
proof -
  have "currentKeyIndexGroupA st < length (GROUP_A_KEYS e)"
    using assms by (blast intro: state_ok_index reachable_state_ok)
  then show ?thesis
    using getOrInitSession_index[of e st] attempt_body_index[of e k ps a st w]
    by (simp add: js_index_def)
qed

theorem key_index_in_range_witness:
  "GROUP_A_KEYS env_two_keys \<noteq> [] \<and> reachable env_two_keys st_second \<and>
   currentKeyIndexGroupA st_second < length (GROUP_A_KEYS env_two_keys) \<and>
   js_index (GROUP_A_KEYS env_two_keys) (currentKeyIndexGroupA st_second) = Some ''k2''"
proof -
  have h: "GROUP_A_KEYS env_two_keys \<noteq> []" by (simp add: keys_env_two_keys)
  from key_index_in_range[OF h reachable_st_second] h reachable_st_second
  show ?thesis
    by (simp add: keys_env_two_keys st_second_def)
qed

text \<open>
  C7, as the code has it. From any state the module can reach, every
  \<open>sendMessage\<close> that a call of \<open>sendMessageToGemini\<close> makes goes out on a
  session whose key is in the Group A list, and the call makes no one-shot request;
  every one-shot request that \<open>generateMindMapText\<close> makes uses a key of the
  Group B list, and it sends nothing on a chat session.
\<close>

theorem keys_by_group:
  assumes "reachable e st"
      and "sendMessageToGemini e k message imagePart st w = (r, st', w')"
      and "generateMindMapText e k2 topic st2 w2 = (r2, st2', w2')"
  shows "(\<exists>evs. trace w' = trace w @ evs \<and>
            set (chat_keys_used evs) \<subseteq> Some ` set (GROUP_A_KEYS e) \<and> map_keys_used evs = []) \<and>
         (\<exists>evs. trace w2' = trace w2 @ evs \<and>
            set (map_keys_used evs) \<subseteq> set (GROUP_B_KEYS e) \<and> chat_keys_used evs = [])"
proof -
  have ok: "state_ok e st" using assms(1) by (rule reachable_state_ok)
  have a: "\<exists>evs. trace w' = trace w @ evs \<and>
            set (chat_keys_used evs) \<subseteq> Some ` set (GROUP_A_KEYS e) \<and> map_keys_used evs = []"
  proof (cases "GROUP_A_KEYS e = []")
    case True
    with assms(2) have "trace w' = trace w @ []" by (simp add: sendMessageToGemini_def)
    then show ?thesis by force
  next
    case False
    then have pos: "0 < length (GROUP_A_KEYS e)" by simp
    from assms(2) False
    have l: "sendMessageToGemini_loop e k (user_parts message imagePart) 0 st w = (r, st', w')"
      by (simp add: sendMessageToGemini_def)
    from sendMessageToGemini_loop_main[OF pos l] ok show ?thesis by blast
  qed
  obtain w3 where "generateMindMapText_loop k2 (mindMapPrompt topic) (GROUP_B_KEYS e) w2 = (r2, w3)"
    and "w2' = w3"
    using assms(3) by (auto simp: generateMindMapText_def split: prod.splits)
  then have b: "\<exists>evs. trace w2' = trace w2 @ evs \<and>
            set (map_keys_used evs) \<subseteq> set (GROUP_B_KEYS e) \<and> chat_keys_used evs = []"
    using generateMindMapText_loop_keys by blast
  from a b show ?thesis by simp
qed


theorem keys_by_group_witness:
  "reachable env_primary_only initial_state \<and>
   sendMessageToGemini env_primary_only (sample_sdk 0 0 ''503'' False) ''oi'' None initial_state world0 =
     (''ok'',
      \<lparr>currentChatSession = Some (chat_kp\<lparr>history := talk\<rparr>), currentKeyIndexGroupA = 0\<rparr>,
      \<lparr>now = 1, trace = [Call_sendMessage chat_kp [TextPart ''oi'']]\<rparr>) \<and>
   generateMindMapText env_primary_only (sample_sdk 0 0 ''503'' False) ''foco'' initial_state world0 =
     (Some ''mapa'', initial_state,
      \<lparr>now = 1, trace = [Call_generateContent ''kp'' TEXT_MODEL (mindMapPrompt ''foco'')]\<rparr>) \<and>
   (\<exists>evs. [Call_sendMessage chat_kp [TextPart ''oi'']] = trace world0 @ evs \<and>
      set (chat_keys_used evs) \<subseteq> Some ` set (GROUP_A_KEYS env_primary_only) \<and>
      map_keys_used evs = []) \<and>
   (\<exists>evs. [Call_generateContent ''kp'' TEXT_MODEL (mindMapPrompt ''foco'')] = trace world0 @ evs \<and>
      set (map_keys_used evs) \<subseteq> set (GROUP_B_KEYS env_primary_only) \<and>
      chat_keys_used evs = [])"
  using keys_by_group[OF reachable_initial sample_run_primary sample_map_primary]
    reachable_initial[of env_primary_only] sample_run_primary sample_map_primary
  by simp

text \<open>
  C7, as stated, fails: the two lists are not disjoint. Both fall back to the primary
  key, so with only that key configured the chat request goes out with a key that is
  on the Group B list as well.
\<close>

theorem keys_by_group_shared_key:
  "GROUP_A_KEYS env_primary_only = [''kp''] \<and>
   GROUP_B_KEYS env_primary_only = [''kp''] \<and>
   chat_keys_used
     (trace (snd (snd (sendMessageToGemini env_primary_only (sample_sdk 0 0 ''503'' False)
                         ''oi'' None initial_state world0)))) = [Some ''kp''] \<and>
   ''kp'' \<in> set (GROUP_B_KEYS env_primary_only)"
  by (simp add: sample_run_primary keys_env_primary_only chat_kp_def)

text \<open>
  C4, as the code has it. The module variables are the session slot (one session or
  none) and the key index. From any state the module can reach,
  \<open>generateMindMapText\<close> and \<open>generateMindMapImage\<close> return the state they
  were given; \<open>sendMessageToGemini\<close> leaves the two variables coherent (the session
  in the slot was created with the key the index points at), leaves both untouched when
  no key is configured, and otherwise leaves a session in the slot.
\<close>

theorem module_state_frame:
  assumes "reachable e st"
  shows "fst (snd (generateMindMapText e k topic st w)) = st \<and>
         fst (snd (generateMindMapImage prompt st w)) = st \<and>
         state_ok e (fst (snd (sendMessageToGemini e k message imagePart st w))) \<and>
         (if GROUP_A_KEYS e = []
          then fst (snd (sendMessageToGemini e k message imagePart st w)) = st
          else currentChatSession (fst (snd (sendMessageToGemini e k message imagePart st w)))
                 \<noteq> None)"
proof -
  have ok: "state_ok e st" using assms by (rule reachable_state_ok)
  obtain r st' w' where s: "sendMessageToGemini e k message imagePart st w = (r, st', w')"
    by (cases "sendMessageToGemini e k message imagePart st w")
  have a: "state_ok e st'" using ok s by (rule sendMessageToGemini_state_ok)
  have b: "if GROUP_A_KEYS e = [] then st' = st else currentChatSession st' \<noteq> None"
  proof (cases "GROUP_A_KEYS e = []")
    case True
    with s show ?thesis by (simp add: sendMessageToGemini_def)
  next
    case False
    then have pos: "0 < length (GROUP_A_KEYS e)" by simp
    from s False
    have l: "sendMessageToGemini_loop e k (user_parts message imagePart) 0 st w = (r, st', w')"
      by (simp add: sendMessageToGemini_def)
    from sendMessageToGemini_loop_main[OF pos l] False show ?thesis by simp
  qed
  have c: "fst (snd (generateMindMapText e k topic st w)) = st"
    by (simp add: generateMindMapText_def split: prod.splits)
  have d: "fst (snd (generateMindMapImage prompt st w)) = st"
    by (simp add: generateMindMapImage_def)
  from a b c d s show ?thesis by simp
qed

theorem module_state_frame_witness:
  "reachable env_two_keys st_second \<and>
   fst (snd (generateMindMapText env_two_keys (sample_sdk 0 1 ''503'' False) ''foco'' st_second world0))
     = st_second \<and>
   fst (snd (generateMindMapImage ''foco'' st_second world0)) = st_second \<and>
   currentChatSession
     (fst (snd (sendMessageToGemini env_two_keys (sample_sdk 0 1 ''503'' False) ''oi'' None
                  st_second world0))) \<noteq> None"
  using module_state_frame[OF reachable_st_second,
      of "sample_sdk 0 1 ''503'' False" "''foco''" world0 "''foco''" "''oi''" None]
    reachable_st_second
  by (simp add: keys_env_two_keys)

text \<open>
  C4, as stated, fails: the slot is not the only variable. A call whose first key
  fails moves \<open>currentKeyIndexGroupA\<close> from 0 to 1.
\<close>

theorem key_index_is_state:
  "currentKeyIndexGroupA initial_state = 0 \<and>
   currentKeyIndexGroupA
     (fst (snd (sendMessageToGemini env_two_keys (sample_sdk 0 1 ''503'' False) ''oi'' None
                  initial_state world0))) = 1 \<and>
   currentChatSession
     (fst (snd (sendMessageToGemini env_two_keys (sample_sdk 0 1 ''503'' False) ''oi'' None
                  initial_state world0))) = Some (chat_k2\<lparr>history := talk\<rparr>)"
proof -
  have "currentKeyIndexGroupA initial_state = 0"
    by (simp add: initial_state_def)
  with sample_run_second_key show ?thesis
    by (simp add: talk_def)
qed

text \<open>
  C5. \<open>getOrInitSession\<close> is lazy. With a session in the slot it returns that
  session and the state it was given. With the slot empty it sets the key index to 0,
  creates a session with the first Group A key and no transcript, stores it and returns
  it (with no key configured the session is created with the placeholder
  \<open>MISSING_KEY\<close>). The single-key copy does the same on its slot.
\<close>

theorem getOrInitSession_lazy:
  "(currentChatSession st = Some c \<longrightarrow> getOrInitSession e st = (c, st)) \<and>
   (currentChatSession st = None \<longrightarrow> GROUP_A_KEYS e \<noteq> [] \<longrightarrow>
      getOrInitSession e st =
        (createSession (Some (GROUP_A_KEYS e ! 0)) None,
         \<lparr>currentChatSession = Some (createSession (Some (GROUP_A_KEYS e ! 0)) None),
          currentKeyIndexGroupA = 0\<rparr>)) \<and>
   (currentChatSession st = None \<longrightarrow> GROUP_A_KEYS e = [] \<longrightarrow>
      getOrInitSession e st =
        (createSession (Some ''MISSING_KEY'') None,
         \<lparr>currentChatSession = Some (createSession (Some ''MISSING_KEY'') None),
          currentKeyIndexGroupA = 0\<rparr>)) \<and>
   (slot = Some c \<longrightarrow> getOrInitSession_alt e slot = (Some c, Some c)) \<and>
   (slot = None \<longrightarrow> GROUP_A_KEYS_alt e \<noteq> [] \<longrightarrow>
      getOrInitSession_alt e slot =
        (Some (createSession (Some (GROUP_A_KEYS_alt e ! 0)) None),
         Some (createSession (Some (GROUP_A_KEYS_alt e ! 0)) None)))"
proof -
  have a: "currentChatSession st = Some c \<longrightarrow> getOrInitSession e st = (c, st)"
    by (simp add: getOrInitSession_Some)
  have b: "currentChatSession st = None \<longrightarrow> GROUP_A_KEYS e \<noteq> [] \<longrightarrow>
      getOrInitSession e st =
        (createSession (Some (GROUP_A_KEYS e ! 0)) None,
         \<lparr>currentChatSession = Some (createSession (Some (GROUP_A_KEYS e ! 0)) None),
          currentKeyIndexGroupA = 0\<rparr>)"
    using first_key[of e] by (simp add: getOrInitSession_None)
  have c: "currentChatSession st = None \<longrightarrow> GROUP_A_KEYS e = [] \<longrightarrow>
      getOrInitSession e st =
        (createSession (Some ''MISSING_KEY'') None,
         \<lparr>currentChatSession = Some (createSession (Some ''MISSING_KEY'') None),
          currentKeyIndexGroupA = 0\<rparr>)"
    by (simp add: getOrInitSession_None js_index_def js_or_default_def)
  have d: "slot = Some c \<longrightarrow> getOrInitSession_alt e slot = (Some c, Some c)"
    by (simp add: getOrInitSession_alt_def)
  have e: "slot = None \<longrightarrow> GROUP_A_KEYS_alt e \<noteq> [] \<longrightarrow>
      getOrInitSession_alt e slot =
        (Some (createSession (Some (GROUP_A_KEYS_alt e ! 0)) None),
         Some (createSession (Some (GROUP_A_KEYS_alt e ! 0)) None))"
    using GROUP_A_KEYS_alt_nonempty[of "GROUP_A_KEYS_alt e ! 0" e]
    by (auto simp: getOrInitSession_alt_def js_index_def truthy_def Let_def)
  from a b c d e show ?thesis by blast
qed

theorem getOrInitSession_lazy_witness:
  "currentChatSession st_k2 = Some chat_k2 \<and>
   getOrInitSession env_two_keys st_k2 = (chat_k2, st_k2) \<and>
   currentChatSession initial_state = None \<and> GROUP_A_KEYS env_two_keys \<noteq> [] \<and>
   getOrInitSession env_two_keys initial_state =
     (createSession (Some ''k1'') None,
      \<lparr>currentChatSession = Some (createSession (Some ''k1'') None), currentKeyIndexGroupA = 0\<rparr>) \<and>
   GROUP_A_KEYS env_no_keys = [] \<and>
   getOrInitSession env_no_keys initial_state =
     (createSession (Some ''MISSING_KEY'') None,
      \<lparr>currentChatSession = Some (createSession (Some ''MISSING_KEY'') None),
       currentKeyIndexGroupA = 0\<rparr>) \<and>
   getOrInitSession_alt env_primary_only (Some chat_kp) = (Some chat_kp, Some chat_kp) \<and>
   GROUP_A_KEYS_alt env_primary_only \<noteq> [] \<and>
   getOrInitSession_alt env_primary_only None =
     (Some (createSession (Some ''kp'') None), Some (createSession (Some ''kp'') None))"
proof -
  have h1: "currentChatSession st_k2 = Some chat_k2" by (simp add: st_k2_def)
  have h2: "currentChatSession initial_state = None" by (simp add: initial_state_def)
  have h3: "GROUP_A_KEYS env_two_keys \<noteq> []" by (simp add: keys_env_two_keys)
  have h4: "GROUP_A_KEYS env_no_keys = []" by (simp add: keys_env_no_keys)
  have h5: "GROUP_A_KEYS_alt env_primary_only \<noteq> []" by (simp add: keys_alt_env_primary_only)
  note t1 = getOrInitSession_lazy[of st_k2 chat_k2 env_two_keys "Some chat_kp"]
  note t2 = getOrInitSession_lazy[of initial_state chat_k2 env_two_keys None]
  note t3 = getOrInitSession_lazy[of initial_state chat_k2 env_no_keys None]
  note t4 = getOrInitSession_lazy[of initial_state chat_kp env_primary_only "Some chat_kp"]
  note t5 = getOrInitSession_lazy[of initial_state chat_kp env_primary_only None]
  from t1 h1 have a: "getOrInitSession env_two_keys st_k2 = (chat_k2, st_k2)" by blast
  from t2 h2 h3 have b: "getOrInitSession env_two_keys initial_state =
     (createSession (Some ''k1'') None,
      \<lparr>currentChatSession = Some (createSession (Some ''k1'') None), currentKeyIndexGroupA = 0\<rparr>)"
    by (simp add: keys_env_two_keys)
  from t3 h2 h4 have c: "getOrInitSession env_no_keys initial_state =
     (createSession (Some ''MISSING_KEY'') None,
      \<lparr>currentChatSession = Some (createSession (Some ''MISSING_KEY'') None),
       currentKeyIndexGroupA = 0\<rparr>)"
    by blast
  from t4 have d: "getOrInitSession_alt env_primary_only (Some chat_kp) = (Some chat_kp, Some chat_kp)"
    by blast
  from t5 h5 have e: "getOrInitSession_alt env_primary_only None =
     (Some (createSession (Some ''kp'') None), Some (createSession (Some ''kp'') None))"
    by (simp add: keys_alt_env_primary_only)
  from h1 h2 h3 h4 h5 a b c d e show ?thesis by blast
qed

text \<open>
  C10. \<open>generateMindMapText\<close> is a total function into \<open>string | null\<close>:
  every failure of a request is caught inside the loop. What it returns is \<open>null\<close>
  or the text of an answer the service gave to a request made with a Group B key; it is
  \<open>null\<close> when the Group B list is empty and when the request of every Group B key
  fails (the \<open>i\<close>-th key is tried at the \<open>i\<close>-th moment after the call starts).
  \<open>generateMindMapImage\<close> returns \<open>null\<close>. The single-key copy behaves the
  same with its one key.
\<close>

theorem mind_map_returns_text_or_null:
  "(fst (generateMindMapText e k topic st w) = None \<or>
    (\<exists>t key resp. key \<in> set (GROUP_B_KEYS e) \<and>
       generateContent_outcome k t key TEXT_MODEL (mindMapPrompt topic) = Inr resp \<and>
       response_text resp = fst (generateMindMapText e k topic st w))) \<and>
   (GROUP_B_KEYS e = [] \<longrightarrow> fst (generateMindMapText e k topic st w) = None) \<and>
   ((\<forall>i<length (GROUP_B_KEYS e).
       isl (generateContent_outcome k (now w + i) (GROUP_B_KEYS e ! i) TEXT_MODEL
              (mindMapPrompt topic))) \<longrightarrow>
    fst (generateMindMapText e k topic st w) = None) \<and>
   fst (generateMindMapImage prompt st w) = None \<and>
   (fst (generateMindMapText_alt e k topic slot w) = None \<or>
    (\<exists>key resp. PRIMARY_KEY_alt e = Some key \<and>
       generateContent_outcome k (now w) key TEXT_MODEL (mindMapPrompt topic) = Inr resp \<and>
       response_text resp = fst (generateMindMapText_alt e k topic slot w))) \<and>
   (GROUP_B_KEYS_alt e = [] \<longrightarrow> fst (generateMindMapText_alt e k topic slot w) = None) \<and>
   ((\<forall>key. isl (generateContent_outcome k (now w) key TEXT_MODEL (mindMapPrompt topic))) \<longrightarrow>
    fst (generateMindMapText_alt e k topic slot w) = None) \<and>
   fst (generateMindMapImage_alt prompt slot w) = None"
proof -
  have f: "fst (generateMindMapText e k topic st w) =
           fst (generateMindMapText_loop k (mindMapPrompt topic) (GROUP_B_KEYS e) w)"
    by (simp add: generateMindMapText_def split: prod.splits)
  have a: "fst (generateMindMapText e k topic st w) = None \<or>
    (\<exists>t key resp. key \<in> set (GROUP_B_KEYS e) \<and>
       generateContent_outcome k t key TEXT_MODEL (mindMapPrompt topic) = Inr resp \<and>
       response_text resp = fst (generateMindMapText e k topic st w))"
    unfolding f by (rule generateMindMapText_loop_result)
  have b: "GROUP_B_KEYS e = [] \<longrightarrow> fst (generateMindMapText e k topic st w) = None"
    unfolding f by simp
  have c: "(\<forall>i<length (GROUP_B_KEYS e).
       isl (generateContent_outcome k (now w + i) (GROUP_B_KEYS e ! i) TEXT_MODEL
              (mindMapPrompt topic))) \<longrightarrow>
    fst (generateMindMapText e k topic st w) = None"
    unfolding f using generateMindMapText_loop_all_fail by blast
  have d: "fst (generateMindMapImage prompt st w) = None"
    by (simp add: generateMindMapImage_def)
  have a': "fst (generateMindMapText_alt e k topic slot w) = None \<or>
    (\<exists>key resp. PRIMARY_KEY_alt e = Some key \<and>
       generateContent_outcome k (now w) key TEXT_MODEL (mindMapPrompt topic) = Inr resp \<and>
       response_text resp = fst (generateMindMapText_alt e k topic slot w))"
    by (auto simp: generateMindMapText_alt_def generateContent_def js_or_def
        split: option.splits sum.splits)
  have b': "GROUP_B_KEYS_alt e = [] \<longrightarrow> fst (generateMindMapText_alt e k topic slot w) = None"
    by (auto simp: generateMindMapText_alt_def GROUP_B_KEYS_alt_def
        split: option.splits if_splits)
  have c': "(\<forall>key. isl (generateContent_outcome k (now w) key TEXT_MODEL (mindMapPrompt topic))) \<longrightarrow>
    fst (generateMindMapText_alt e k topic slot w) = None"
  proof
    assume all: "\<forall>key. isl (generateContent_outcome k (now w) key TEXT_MODEL (mindMapPrompt topic))"
    show "fst (generateMindMapText_alt e k topic slot w) = None"
    proof (cases "PRIMARY_KEY_alt e")
      case None
      then show ?thesis by (simp add: generateMindMapText_alt_def)
    next
      case (Some key)
      from all have "isl (generateContent_outcome k (now w) key TEXT_MODEL (mindMapPrompt topic))"
        by blast
      then obtain err where
        "generateContent_outcome k (now w) key TEXT_MODEL (mindMapPrompt topic) = Inl err"
        by (cases "generateContent_outcome k (now w) key TEXT_MODEL (mindMapPrompt topic)") auto
      with Some show ?thesis
        by (simp add: generateMindMapText_alt_def generateContent_def)
    qed
  qed
  have d': "fst (generateMindMapImage_alt prompt slot w) = None"
    by (simp add: generateMindMapImage_alt_def)
  from a b c d a' b' c' d' show ?thesis by blast
qed

theorem mind_map_returns_text_or_null_witness:
  "GROUP_B_KEYS env_no_keys = [] \<and>
   fst (generateMindMapText env_no_keys (sample_sdk 0 0 ''503'' False) ''foco'' initial_state world0)
     = None \<and>
   length (GROUP_B_KEYS env_primary_only) = 1 \<and>
   isl (generateContent_outcome (sample_sdk_down ''503'' False) (now world0 + 0)
          (GROUP_B_KEYS env_primary_only ! 0) TEXT_MODEL (mindMapPrompt ''foco'')) \<and>
   fst (generateMindMapText env_primary_only (sample_sdk_down ''503'' False) ''foco''
          initial_state world0) = None \<and>
   GROUP_B_KEYS_alt env_no_keys = [] \<and>
   fst (generateMindMapText_alt env_no_keys (sample_sdk 0 0 ''503'' False) ''foco'' None world0)
     = None \<and>
   fst (generateMindMapText_alt env_primary_only (sample_sdk_down ''503'' False) ''foco''
          None world0) = None"
proof -
  have h1: "GROUP_B_KEYS env_no_keys = []" by (simp add: keys_env_no_keys)
  have h2: "length (GROUP_B_KEYS env_primary_only) = 1" by (simp add: keys_env_primary_only)
  have h3: "isl (generateContent_outcome (sample_sdk_down ''503'' False) (now world0 + 0)
          (GROUP_B_KEYS env_primary_only ! 0) TEXT_MODEL (mindMapPrompt ''foco''))"
    by (simp add: sample_sdk_down_def)
  have h3': "\<forall>i<length (GROUP_B_KEYS env_primary_only).
       isl (generateContent_outcome (sample_sdk_down ''503'' False) (now world0 + i)
              (GROUP_B_KEYS env_primary_only ! i) TEXT_MODEL (mindMapPrompt ''foco''))"
    by (simp add: sample_sdk_down_def)
  have h4: "GROUP_B_KEYS_alt env_no_keys = []" by (simp add: keys_alt_env_no_keys)
  have h5: "\<forall>key. isl (generateContent_outcome (sample_sdk_down ''503'' False) (now world0) key
                        TEXT_MODEL (mindMapPrompt ''foco''))"
    by (simp add: sample_sdk_down_def)
  note t1 = mind_map_returns_text_or_null[of env_no_keys "sample_sdk 0 0 ''503'' False" "''foco''"
      initial_state world0 "''foco''" None]
  note t2 = mind_map_returns_text_or_null[of env_primary_only "sample_sdk_down ''503'' False"
      "''foco''" initial_state world0 "''foco''" None]
  from t1 h1 have a: "fst (generateMindMapText env_no_keys (sample_sdk 0 0 ''503'' False) ''foco''
      initial_state world0) = None" by blast
  from t2 h3' have b: "fst (generateMindMapText env_primary_only (sample_sdk_down ''503'' False)
      ''foco'' initial_state world0) = None" by blast
  from t1 h4 have c: "fst (generateMindMapText_alt env_no_keys (sample_sdk 0 0 ''503'' False)
      ''foco'' None world0) = None" by blast
  from t2 h5 have d: "fst (generateMindMapText_alt env_primary_only (sample_sdk_down ''503'' False)
      ''foco'' None world0) = None" by blast
  from h1 h2 h3 h4 a b c d show ?thesis by blast
qed

text \<open>
  C6, as the code has it. In \<open>services/geminiService.ts\<close> the kind of failure plays
  no part: whatever errors the service throws instead, \<open>sendMessageToGemini\<close>
  returns the same string, leaves the same module state and makes the same calls; only
  the error object printed with a warning differs. The single-key copy of the module
  does read the error: its \<open>catch\<close> block answers with one of three messages,
  chosen by the text of the error.
\<close>

theorem sendMessageToGemini_error_blind:
  "fst (sendMessageToGemini e (with_errors f k) message imagePart st w) =
     fst (sendMessageToGemini e k message imagePart st w) \<and>
   fst (snd (sendMessageToGemini e (with_errors f k) message imagePart st w)) =
     fst (snd (sendMessageToGemini e k message imagePart st w)) \<and>
   same_but_errors (snd (snd (sendMessageToGemini e (with_errors f k) message imagePart st w)))
     (snd (snd (sendMessageToGemini e k message imagePart st w))) \<and>
   fst (handle_failure_alt err w) =
     (if js_includes (toString err) ''404'' \<or> js_includes (toString err) ''not found''
      then MSG_MODEL_NOT_FOUND
      else if js_includes (toString err) ''429'' \<or> js_includes (toString err) ''503''
      then MSG_OVERLOADED
      else MSG_SYSTEM)"
proof -
  have r: "same_but_errors w w" by (simp add: same_but_errors_def)
  have a: "fst (handle_failure_alt err w) =
     (if js_includes (toString err) ''404'' \<or> js_includes (toString err) ''not found''
      then MSG_MODEL_NOT_FOUND
      else if js_includes (toString err) ''429'' \<or> js_includes (toString err) ''503''
      then MSG_OVERLOADED
      else MSG_SYSTEM)"
    by (simp add: handle_failure_alt_def Let_def)
  show ?thesis
  proof (cases "GROUP_A_KEYS e = []")
    case True
    with a r show ?thesis by (simp add: sendMessageToGemini_def)
  next
    case False
    with a sendMessageToGemini_loop_error_blind[OF r, of e f k "user_parts message imagePart" 0 st]
    show ?thesis by (simp add: sendMessageToGemini_def)
  qed
qed

text \<open>
  C6, as stated, fails on the single-key copy: the same request, failing once with an
  error whose text holds \<open>404\<close> and once with one that holds \<open>503\<close>, gets two
  different results.
\<close>

theorem sendMessageToGemini_alt_reads_error:
  "fst (sendMessageToGemini_alt env_primary_only (sample_sdk_down ''404'' False) ''oi'' None None world0)
     = MSG_MODEL_NOT_FOUND \<and>
   fst (sendMessageToGemini_alt env_primary_only (sample_sdk_down ''503'' False) ''oi'' None None world0)
     = MSG_OVERLOADED \<and>
   MSG_MODEL_NOT_FOUND \<noteq> MSG_OVERLOADED"
proof -
  have a: "fst (handle_failure_alt (JsError ''404'') w) = MSG_MODEL_NOT_FOUND" for w
    by (simp add: handle_failure_alt_def Let_def)
  have b: "fst (handle_failure_alt (JsError ''503'') w) = MSG_OVERLOADED" for w
    by (simp add: handle_failure_alt_def Let_def)
  have c: "MSG_MODEL_NOT_FOUND \<noteq> MSG_OVERLOADED"
    by (simp add: MSG_MODEL_NOT_FOUND_def MSG_OVERLOADED_def)
  from a b c show ?thesis by (simp add: sendMessageToGemini_alt_down)
qed

end
